theory Spec2Isabelle
  imports Complex_Main
begin

section \<open>Python values, the backend and the effects of a run\<close>

text \<open>
  The suite is four Python modules that wrap calls to a hosted text-generation backend:
  \<^verbatim>\<open>MarketResearchAnalysis.py\<close>, \<^verbatim>\<open>ExecutionPlanGenerator.py\<close>, \<^verbatim>\<open>StrategicAnalyzer.py\<close>
  and \<^verbatim>\<open>Chatbot.py\<close>, with the dashboard \<^verbatim>\<open>app.py\<close> on top. A Python \<^verbatim>\<open>str\<close> is a
  \<^typ>\<open>string\<close> here, one \<^typ>\<open>char\<close> for each character of the \<^verbatim>\<open>str\<close> (a
  \<^typ>\<open>char\<close> holds the code points below 256; nothing proved below depends on which
  characters a text holds); a returned dictionary is an association list in insertion
  order. What a function writes to the
  console with \<^verbatim>\<open>print\<close> is left out: no result, request or delay depends on it.
\<close>

datatype pyval =
    PNone
  | PStr string
  | PInt int
  | PList "pyval list"
  | PDict "(string \<times> pyval) list"

type_synonym pydict = "(string \<times> pyval) list"

text \<open>\<^verbatim>\<open>key in d\<close> and \<^verbatim>\<open>d.get(key, default)\<close>.\<close>

definition has_key :: "pydict \<Rightarrow> string \<Rightarrow> bool" where
  "has_key d k = (k \<in> set (map fst d))"

definition dict_get :: "pydict \<Rightarrow> string \<Rightarrow> pyval \<Rightarrow> pyval" where
  "dict_get d k dflt = (case map_of d k of Some v \<Rightarrow> v | None \<Rightarrow> dflt)"

text \<open>
  The exceptions the code meets, by class, each with the text \<^verbatim>\<open>str(e)\<close> gives. Every
  class here is a subclass of \<^verbatim>\<open>Exception\<close>; \<^verbatim>\<open>except RateLimitError\<close> matches the first
  class only, \<^verbatim>\<open>except FileNotFoundError\<close> only that one.
\<close>

datatype exn_class =
    RateLimitError
  | APIConnectionError
  | APITimeoutError
  | APIStatusError
  | IndexError
  | AttributeError
  | TypeError
  | FileNotFoundError
  | OSError
  | EOFError

datatype exn = Exn (exn_class: exn_class) (str: string)

text \<open>
  An attribute of a response object that the code reads with \<^verbatim>\<open>hasattr\<close> or
  \<^verbatim>\<open>getattr(obj, name, default)\<close>: it may be missing, be \<^verbatim>\<open>None\<close>, or hold a value.
\<close>

datatype 'a attr = Absent | IsNone | Has 'a

text \<open>
  \<^verbatim>\<open>completion.choices[i].message\<close> with its \<^verbatim>\<open>content\<close>, a text or \<^verbatim>\<open>None\<close>, and the
  optional \<^verbatim>\<open>executed_tools\<close> and \<^verbatim>\<open>reasoning\<close>; \<^verbatim>\<open>completion.usage\<close>, where \<open>Has n\<close> is a
  usage object whose \<^verbatim>\<open>total_tokens\<close> is \<open>n\<close>.
\<close>

record message =
  content :: "string option"
  executed_tools :: "pyval list attr"
  reasoning :: "string attr"

record completion =
  choices :: "message list"
  usage :: "int attr"

text \<open>A \<^verbatim>\<open>content\<close> as the value a dictionary holds: the text, or \<^verbatim>\<open>None\<close>.\<close>

definition text_value :: "string option \<Rightarrow> pyval" where
  "text_value t = (case t of None \<Rightarrow> PNone | Some s \<Rightarrow> PStr s)"

text \<open>The keyword arguments of \<^verbatim>\<open>client.chat.completions.create\<close>.\<close>

record request =
  model :: string
  messages :: "(string \<times> string) list"
  temperature :: rat
  max_tokens :: nat
  top_p :: "rat option"
  stream :: "bool option"

datatype response = Returns completion | Raises exn

datatype file_read = FileText string | OpenFails exn

text \<open>
  The surroundings of a run. \<open>backend e n req\<close> is what the remote service answers to
  the request \<open>req\<close> when \<open>n\<close> calls have been made before it; \<open>clock e n\<close> is the text of
  \<^verbatim>\<open>datetime.now().isoformat()\<close> after \<open>n\<close> effects; \<open>files e path\<close> is what opening and
  reading \<open>path\<close> gives.
\<close>

record env =
  backend :: "nat \<Rightarrow> request \<Rightarrow> response"
  clock :: "nat \<Rightarrow> string"
  files :: "string \<Rightarrow> file_read"

text \<open>
  What a run does to the outside: the calls it sends and the delays it waits, in order,
  and the lines it has still to read from the console.
\<close>

datatype event = BackendCall request | Sleep nat

record world =
  events :: "event list"
  stdin :: "string list"

fun is_call :: "event \<Rightarrow> bool" where
  "is_call (BackendCall req) = True"
| "is_call (Sleep s) = False"

definition calls_made :: "world \<Rightarrow> nat" where
  "calls_made w = length (filter is_call (events w))"

definition chat_completions_create :: "env \<Rightarrow> request \<Rightarrow> world \<Rightarrow> response \<times> world" where
  "chat_completions_create e req w =
     (backend e (calls_made w) req, w\<lparr>events := events w @ [BackendCall req]\<rparr>)"

definition asyncio_sleep :: "nat \<Rightarrow> world \<Rightarrow> world" where
  "asyncio_sleep seconds w = w\<lparr>events := events w @ [Sleep seconds]\<rparr>"

definition datetime_now_isoformat :: "env \<Rightarrow> world \<Rightarrow> string" where
  "datetime_now_isoformat e w = clock e (length (events w))"

text \<open>\<^verbatim>\<open>input()\<close>: the next line of the console, \<^verbatim>\<open>EOFError\<close> when there is none.\<close>

definition input :: "world \<Rightarrow> (exn + string) \<times> world" where
  "input w =
     (case stdin w of
        [] \<Rightarrow> (Inl (Exn EOFError ''EOF when reading a line''), w)
      | line # rest \<Rightarrow> (Inr line, w\<lparr>stdin := rest\<rparr>))"

text \<open>
  \<^verbatim>\<open>s[:n]\<close> for a literal \<open>n\<close>: the items at the indices \<open>0, ..., min(n, len(s)) - 1\<close>.
\<close>

definition slice_to :: "nat \<Rightarrow> 'a list \<Rightarrow> 'a list" where
  "slice_to n s = map (\<lambda>i. s ! i) [0..<min n (length s)]"

text \<open>\<^verbatim>\<open>str(n)\<close> of a number that is not negative, as an f-string prints it.\<close>

fun str_nat :: "nat \<Rightarrow> string" where
  "str_nat n =
     (if n < 10 then [char_of (48 + n)]
      else str_nat (n div 10) @ [char_of (48 + n mod 10)])"

section \<open>MarketResearchAnalysis.py\<close>

definition get_universal_market_research_prompt :: "string \<Rightarrow> string" where
  \<open>get_universal_market_research_prompt user_idea =
   ''You are an expert market research analyst. Your task is to conduct a comprehensive analysis for a new business idea using REAL-TIME web search.\<newline>'' @
   ''\<newline>'' @
   ''**USER IDEA**: '' @ user_idea @ ''\<newline>'' @
   ''\<newline>'' @
   ''**CRITICAL INSTRUCTIONS**:\<newline>'' @
   ''You MUST use your web search capabilities to find current, real-time data. Prioritize information from the last 12-18 months.\<newline>'' @
   ''\<newline>'' @
   ''**REQUIRED WEB SEARCHES**:\<newline>'' @
   ''- Search for "'' @ user_idea @ '' market size and growth 2024 2025"\<newline>'' @
   ''- Search for "top competitors for '' @ user_idea @ ''"\<newline>'' @
   ''- Search for "latest trends in the '' @ user_idea @ '' industry"\<newline>'' @
   ''- Search for "venture capital funding in '' @ user_idea @ '' startups"\<newline>'' @
   ''- Search for "customer needs and pain points for '' @ user_idea @ ''"\<newline>'' @
   ''\<newline>'' @
   ''**REQUIRED ANALYSIS STRUCTURE**:\<newline>'' @
   ''Based on your web search, provide a detailed report covering these core areas:\<newline>'' @
   ''\<newline>'' @
   ''1.  **Market Overview & Opportunity**: Analyze the market size (TAM, SAM, SOM), growth rate, key trends, and primary drivers.\<newline>'' @
   ''2.  **Target Audience**: Define the primary and secondary customer segments, their pain points, and buying behaviors.\<newline>'' @
   ''3.  **Competitive Landscape**: Identify direct and indirect competitors, their recent activities, strengths, and weaknesses. Use real company names.\<newline>'' @
   ''4.  **Business Model & Revenue**: Suggest viable revenue streams, pricing strategies, and monetization models based on successful examples.\<newline>'' @
   ''5.  **Market Validation**: Assess current market demand, timing, and the regulatory environment.\<newline>'' @
   ''6.  **Risks & Challenges**: Outline potential market, competitive, and execution risks.\<newline>'' @
   ''7.  **Success Factors & Recommendations**: Conclude with critical success factors, strategic recommendations, and potential innovation opportunities.\<newline>'' @
   ''\<newline>'' @
   ''**OUTPUT REQUIREMENTS**:\<newline>'' @
   ''- Be data-driven. Include specific statistics, company names, and funding amounts from your search results.\<newline>'' @
   ''- Cite sources with URLs where possible.\<newline>'' @
   ''- Provide a confident, expert-level analysis.\<newline>'' @
   ''\<newline>'' @
   ''Begin your comprehensive market research now:''\<close>

text \<open>The arguments of the call in \<^verbatim>\<open>analyze_market_opportunity\<close>; \<^verbatim>\<open>self.model\<close> is \<^verbatim>\<open>groq/compound\<close>.\<close>

definition market_research_request :: "string \<Rightarrow> request" where
  "market_research_request research_prompt =
     \<lparr>model = ''groq/compound'',
      messages =
        [(''system'', ''You are a world-class market research analyst with REAL-TIME web search. You must use your search capabilities to gather current data and provide a comprehensive, data-driven analysis with actionable insights. Cite your sources.''),
         (''user'', research_prompt)],
      temperature = 7 / 10,
      max_tokens = 8000,
      top_p = Some (9 / 10),
      stream = Some False\<rparr>"

text \<open>The text of the \<^verbatim>\<open>AttributeError\<close> that reading \<^verbatim>\<open>total_tokens\<close> of \<^verbatim>\<open>None\<close> raises.\<close>

definition none_has_no_total_tokens :: string where
  "none_has_no_total_tokens =
     [CHR 0x27] @ ''NoneType'' @ [CHR 0x27] @ '' object has no attribute '' @
     [CHR 0x27] @ ''total_tokens'' @ [CHR 0x27]"

text \<open>
  The rest of the \<^verbatim>\<open>try\<close> block once \<^verbatim>\<open>create\<close> has returned: reading the completion and
  building the dictionary. \<^verbatim>\<open>choices[0]\<close> raises on an empty list, and
  \<^verbatim>\<open>completion.usage.total_tokens\<close> raises when \<^verbatim>\<open>usage\<close> is there and is \<^verbatim>\<open>None\<close>.
\<close>

definition market_research_result :: "env \<Rightarrow> string \<Rightarrow> world \<Rightarrow> completion \<Rightarrow> exn + pydict" where
  "market_research_result e user_idea w completion =
     (case choices completion of
        [] \<Rightarrow> Inl (Exn IndexError ''list index out of range'')
      | m # _ \<Rightarrow>
          let analysis_result = text_value (content m);
              web_search_data =
                (case executed_tools m of Absent \<Rightarrow> PList [] | IsNone \<Rightarrow> PNone | Has ts \<Rightarrow> PList ts);
              reasoning_data =
                (case reasoning m of Absent \<Rightarrow> PStr [] | IsNone \<Rightarrow> PNone | Has r \<Rightarrow> PStr r)
          in (case usage completion of
                IsNone \<Rightarrow> Inl (Exn AttributeError none_has_no_total_tokens)
              | u \<Rightarrow>
                  Inr [(''user_idea'', PStr user_idea),
                       (''analysis_timestamp'', PStr (datetime_now_isoformat e w)),
                       (''model_used'', PStr ''groq/compound''),
                       (''market_research_analysis'', analysis_result),
                       (''web_search_data'', web_search_data),
                       (''reasoning_process'', reasoning_data),
                       (''analysis_metadata'',
                        PDict
                          [(''total_tokens'', (case u of Has n \<Rightarrow> PInt n | _ \<Rightarrow> PNone)),
                           (''analysis_depth'', PStr ''comprehensive_with_real_web_search''),
                           (''web_searches_performed'',
                            PInt (case web_search_data of PList ts \<Rightarrow> int (length ts) | _ \<Rightarrow> 0))])]))"

text \<open>
  The loop \<^verbatim>\<open>for attempt in range(max_retries)\<close> with its \<^verbatim>\<open>try\<close>: the list is what is left
  of the range. The first equation is the \<^verbatim>\<open>return\<close> after the loop.
\<close>

fun market_research_attempts ::
  "env \<Rightarrow> string \<Rightarrow> string \<Rightarrow> nat \<Rightarrow> nat \<Rightarrow> nat list \<Rightarrow> world \<Rightarrow> pydict \<times> world" where
  "market_research_attempts e user_idea research_prompt max_retries retry_delay [] w =
     ([(''error'', PStr ''Analysis failed after all retries.'')], w)"
| "market_research_attempts e user_idea research_prompt max_retries retry_delay (attempt # rest) w =
     (case chat_completions_create e (market_research_request research_prompt) w of
        (Returns completion, w1) \<Rightarrow>
          (case market_research_result e user_idea w1 completion of
             Inr result \<Rightarrow> (result, w1)
           | Inl ex \<Rightarrow>
               ([(''error'', PStr (''An unexpected error occurred during analysis: '' @ str ex))], w1))
      | (Raises ex, w1) \<Rightarrow>
          if exn_class ex = RateLimitError then
            if attempt < max_retries - 1 then
              market_research_attempts e user_idea research_prompt max_retries retry_delay rest
                (asyncio_sleep retry_delay w1)
            else
              ([(''error'', PStr (''Analysis failed after '' @ str_nat max_retries @
                                 '' attempts due to persistent rate limiting.'')),
                (''details'', PStr (str ex))], w1)
          else
            ([(''error'', PStr (''An unexpected error occurred during analysis: '' @ str ex))], w1))"

definition analyze_market_opportunity :: "env \<Rightarrow> string \<Rightarrow> world \<Rightarrow> pydict \<times> world" where
  "analyze_market_opportunity e user_idea w =
     (let research_prompt = get_universal_market_research_prompt user_idea;
          max_retries = 3;
          retry_delay = 61
      in market_research_attempts e user_idea research_prompt max_retries retry_delay
           [0..<max_retries] w)"

section \<open>ExecutionPlanGenerator.py\<close>

definition get_web_research_prompt :: "string \<Rightarrow> string \<Rightarrow> string" where
  \<open>get_web_research_prompt user_idea market_report =
   ''You are a business strategy researcher. Use your web search capabilities to find current, real-world implementation strategies for a business idea.\<newline>'' @
   ''\<newline>'' @
   ''**USER IDEA**: '' @ user_idea @ ''\<newline>'' @
   ''\<newline>'' @
   ''**MARKET CONTEXT (Summary)**: '' @ slice_to 1500 market_report @ ''...\<newline>'' @
   ''\<newline>'' @
   ''**CRITICAL WEB SEARCH TASKS**:\<newline>'' @
   ''- Search for case studies of similar successful startups.\<newline>'' @
   ''- Search for typical resource requirements (funding, team size).\<newline>'' @
   ''- Search for common technology stacks and development timelines.\<newline>'' @
   ''- Search for key regulatory hurdles and compliance needs.\<newline>'' @
   ''- Search for common challenges and pitfalls to avoid.\<newline>'' @
   ''\<newline>'' @
   ''**OUTPUT REQUIREMENTS**:\<newline>'' @
   ''Provide a concise research summary with actionable data. Include company names, realistic timelines, funding estimates, and key challenges. Organize findings into clear sections for execution planning.\<newline>'' @
   ''\<newline>'' @
   ''Begin web research now:''\<close>

definition get_execution_planning_prompt :: "string \<Rightarrow> string \<Rightarrow> string \<Rightarrow> string" where
  \<open>get_execution_planning_prompt user_idea market_report web_research_data =
   ''You are a world-class business strategist. Create a comprehensive, step-by-step execution plan using chain-of-thought reasoning.\<newline>'' @
   ''\<newline>'' @
   ''**USER IDEA**: '' @ user_idea @ ''\<newline>'' @
   ''\<newline>'' @
   ''**MARKET CONTEXT (Summary)**:\<newline>'' @
   slice_to 1500 market_report @ ''\<newline>'' @
   ''\<newline>'' @
   ''**WEB RESEARCH FINDINGS (Summary)**:\<newline>'' @
   slice_to 2000 web_research_data @ ''\<newline>'' @
   ''\<newline>'' @
   ''**CHAIN-OF-THOUGHT INSTRUCTIONS**:\<newline>'' @
   ''For each phase of the plan, briefly explain your reasoning, covering the objective, key steps, deliverables, and potential risks.\<newline>'' @
   ''\<newline>'' @
   ''**REQUIRED EXECUTION PLAN STRUCTURE**:\<newline>'' @
   ''Create a multi-phase plan covering the first 24 months. Each phase should include objectives, key actions, deliverables, and required resources.\<newline>'' @
   ''\<newline>'' @
   ''-   **Executive Summary**: Vision, success metrics, timeline, and key milestones.\<newline>'' @
   ''-   **Phase 1: Foundation & Prep (Months 1-3)**: Legal, team, financial, and market intelligence setup.\<newline>'' @
   ''-   **Phase 2: Product Development (Months 2-8)**: MVP strategy, development, and beta testing.\<newline>'' @
   ''-   **Phase 3: Market Validation (Months 6-12)**: Initial launch, customer acquisition, and achieving product-market fit.\<newline>'' @
   ''-   **Phase 4: Scaling Operations (Months 10-18)**: Building scalable operations, partnerships, and infrastructure.\<newline>'' @
   ''-   **Phase 5: Growth & Expansion (Months 16-24)**: Scaling marketing, sales, and market reach.\<newline>'' @
   ''-   **Risk Management**: Outline key market, operational, and financial risks and mitigation strategies.\<newline>'' @
   ''-   **Resource Summary**: High-level overview of human, financial, and tech resources needed.\<newline>'' @
   ''\<newline>'' @
   ''**OUTPUT REQUIREMENTS**:\<newline>'' @
   ''- Be detailed, specific, and actionable.\<newline>'' @
   ''- Use data from the market and web research to support your recommendations.\<newline>'' @
   ''\<newline>'' @
   ''Begin your chain-of-thought execution planning now:''\<close>

text \<open>The call of \<^verbatim>\<open>research_execution_strategies\<close>; \<^verbatim>\<open>self.compound_model\<close> is \<^verbatim>\<open>groq/compound\<close>.\<close>

definition web_research_request :: "string \<Rightarrow> request" where
  \<open>web_research_request research_prompt =
     \<lparr>model = ''groq/compound'',
      messages =
        [(''system'', ''You are a business strategy researcher with real-time web search. Find current implementation strategies, case studies, and resource requirements for the user's idea.''),
         (''user'', research_prompt)],
      temperature = 6 / 10,
      max_tokens = 6000,
      top_p = None,
      stream = Some False\<rparr>\<close>

definition web_research_result :: "env \<Rightarrow> world \<Rightarrow> completion \<Rightarrow> exn + pydict" where
  "web_research_result e w completion =
     (case choices completion of
        [] \<Rightarrow> Inl (Exn IndexError ''list index out of range'')
      | m # _ \<Rightarrow>
          Inr [(''research_data'', text_value (content m)),
               (''timestamp'', PStr (datetime_now_isoformat e w))])"

fun web_research_attempts ::
  "env \<Rightarrow> string \<Rightarrow> nat \<Rightarrow> nat \<Rightarrow> nat list \<Rightarrow> world \<Rightarrow> pydict \<times> world" where
  "web_research_attempts e research_prompt max_retries retry_delay [] w =
     ([(''error'', PStr ''Web research failed after all retries.''),
       (''research_data'', PStr ''Not available.'')], w)"
| "web_research_attempts e research_prompt max_retries retry_delay (attempt # rest) w =
     (case chat_completions_create e (web_research_request research_prompt) w of
        (Returns completion, w1) \<Rightarrow>
          (case web_research_result e w1 completion of
             Inr result \<Rightarrow> (result, w1)
           | Inl ex \<Rightarrow>
               ([(''error'', PStr (''An unexpected error occurred during web research: '' @ str ex)),
                 (''research_data'', PStr ''Not available.'')], w1))
      | (Raises ex, w1) \<Rightarrow>
          if exn_class ex = RateLimitError then
            if attempt < max_retries - 1 then
              web_research_attempts e research_prompt max_retries retry_delay rest
                (asyncio_sleep retry_delay w1)
            else
              ([(''error'', PStr (''Web research failed after '' @ str_nat max_retries @
                                 '' attempts due to persistent rate limiting.'')),
                (''details'', PStr (str ex)),
                (''research_data'', PStr ''Not available.'')], w1)
          else
            ([(''error'', PStr (''An unexpected error occurred during web research: '' @ str ex)),
              (''research_data'', PStr ''Not available.'')], w1))"

definition research_execution_strategies :: "env \<Rightarrow> string \<Rightarrow> string \<Rightarrow> world \<Rightarrow> pydict \<times> world" where
  "research_execution_strategies e user_idea market_report w =
     (let research_prompt = get_web_research_prompt user_idea market_report;
          max_retries = 3;
          retry_delay = 61
      in web_research_attempts e research_prompt max_retries retry_delay [0..<max_retries] w)"

text \<open>
  \<^verbatim>\<open>if not x: x = input(...)\<close> for an argument whose default is \<^verbatim>\<open>None\<close>: the console is
  asked when the argument is \<^verbatim>\<open>None\<close> or the empty string.
\<close>

definition or_input :: "string option \<Rightarrow> world \<Rightarrow> (exn + string) \<times> world" where
  "or_input x w =
     (case x of
        None \<Rightarrow> input w
      | Some s \<Rightarrow> if s = [] then input w else (Inr s, w))"

text \<open>The one call of the planning step; \<^verbatim>\<open>self.reasoning_model\<close> is \<^verbatim>\<open>openai/gpt-oss-120b\<close>.\<close>

definition planning_request :: "string \<Rightarrow> request" where
  "planning_request planning_prompt =
     \<lparr>model = ''openai/gpt-oss-120b'',
      messages =
        [(''system'', ''You are a world-class business strategist. Use chain-of-thought reasoning to create comprehensive, actionable execution plans based on the provided research.''),
         (''user'', planning_prompt)],
      temperature = 7 / 10,
      max_tokens = 8000,
      top_p = Some (9 / 10),
      stream = Some False\<rparr>"

text \<open>The text of the \<^verbatim>\<open>TypeError\<close> that slicing \<^verbatim>\<open>None\<close> raises.\<close>

definition none_not_subscriptable :: string where
  "none_not_subscriptable =
     [CHR 0x27] @ ''NoneType'' @ [CHR 0x27] @ '' object is not subscriptable''"

text \<open>
  \<^verbatim>\<open>generate_execution_plan\<close>: the two arguments, the web research, then the planning call
  in a \<^verbatim>\<open>try\<close> of its own with no loop around it. An \<^verbatim>\<open>EOFError\<close> of \<^verbatim>\<open>input\<close> leaves the
  function. The prompt builder is called before the \<^verbatim>\<open>try\<close> and slices its third
  argument, \<^verbatim>\<open>web_research.get('research_data', '')\<close>. That value is a text or \<^verbatim>\<open>None\<close>,
  the \<^verbatim>\<open>content\<close> of the web research or its placeholder; slicing \<^verbatim>\<open>None\<close> raises a
  \<^verbatim>\<open>TypeError\<close> that leaves the function, and no planning call is sent. The last case
  stands for \<^verbatim>\<open>None\<close>; no other value occurs.
\<close>

definition generate_execution_plan ::
  "env \<Rightarrow> string option \<Rightarrow> string option \<Rightarrow> world \<Rightarrow> (exn + pydict) \<times> world" where
  "generate_execution_plan e user_idea0 market_report0 w =
     (case or_input user_idea0 w of
        (Inl ex, w1) \<Rightarrow> (Inl ex, w1)
      | (Inr user_idea, w1) \<Rightarrow>
          (case or_input market_report0 w1 of
             (Inl ex, w2) \<Rightarrow> (Inl ex, w2)
           | (Inr market_report, w2) \<Rightarrow>
               (case research_execution_strategies e user_idea market_report w2 of
                  (web_research, w3) \<Rightarrow>
                    (case dict_get web_research ''research_data'' (PStr []) of
                       PStr web_research_data \<Rightarrow>
                         (let planning_prompt =
                                get_execution_planning_prompt user_idea market_report web_research_data
                          in case chat_completions_create e (planning_request planning_prompt) w3 of
                               (Returns completion, w4) \<Rightarrow>
                                 (case choices completion of
                                    [] \<Rightarrow>
                                      (Inr [(''error'', PStr (''Execution planning failed: '' @
                                                             ''list index out of range''))], w4)
                                  | m # _ \<Rightarrow>
                                      (Inr [(''user_idea'', PStr user_idea),
                                            (''market_report'', PStr market_report),
                                            (''web_research_summary'', PStr web_research_data),
                                            (''execution_plan'', text_value (content m)),
                                            (''generation_timestamp'', PStr (datetime_now_isoformat e w4))],
                                       w4))
                             | (Raises ex, w4) \<Rightarrow>
                                 (Inr [(''error'', PStr (''Execution planning failed: '' @ str ex))], w4))
                     | _ \<Rightarrow> (Inl (Exn TypeError none_not_subscriptable), w3)))))"

section \<open>StrategicAnalyzer.py\<close>

definition get_strategic_analysis_prompt :: "string \<Rightarrow> string \<Rightarrow> string \<Rightarrow> string" where
  \<open>get_strategic_analysis_prompt user_idea market_report execution_plan =
   ''You are a world-class business strategist and competitive intelligence expert with 30+ years of experience analyzing business opportunities and creating differentiation strategies. Your task is to conduct a comprehensive strategic analysis of this business idea.\<newline>'' @
   ''\<newline>'' @
   ''**BUSINESS IDEA**: '' @ user_idea @ ''\<newline>'' @
   ''\<newline>'' @
   ''**MARKET RESEARCH CONTEXT**:\<newline>'' @
   slice_to 2500 market_report @ ''\<newline>'' @
   ''\<newline>'' @
   ''**EXECUTION PLAN CONTEXT**:\<newline>'' @
   slice_to 2500 execution_plan @ ''\<newline>'' @
   ''\<newline>'' @
   ''**STRATEGIC ANALYSIS FRAMEWORK**:\<newline>'' @
   ''Analyze this business opportunity through multiple strategic lenses and provide actionable insights for competitive advantage.\<newline>'' @
   ''\<newline>'' @
   ''**REQUIRED ANALYSIS SECTIONS**:\<newline>'' @
   ''\<newline>'' @
   ''## 1. COMPREHENSIVE POSITIVE ANALYSIS\<newline>'' @
   ''\<newline>'' @
   ''### 1.1 MARKET OPPORTUNITIES\<newline>'' @
   ''- **Market Timing Advantages**: Why now is the right time for this idea\<newline>'' @
   ''- **Market Size & Growth Potential**: Quantitative opportunities and growth drivers\<newline>'' @
   ''- **Customer Pain Point Solutions**: Specific problems this idea solves better than alternatives\<newline>'' @
   ''- **Market Gap Exploitation**: Underserved segments and white space opportunities\<newline>'' @
   ''- **Technology Convergence**: How emerging technologies favor this approach\<newline>'' @
   ''- **Regulatory Tailwinds**: Favorable policy and regulatory trends\<newline>'' @
   ''\<newline>'' @
   ''### 1.2 COMPETITIVE ADVANTAGES\<newline>'' @
   ''- **First-Mover Advantages**: Early market entry benefits\<newline>'' @
   ''- **Unique Value Proposition**: Distinctive benefits over existing solutions\<newline>'' @
   ''- **Network Effects**: Potential for viral growth and network value\<newline>'' @
   ''- **Economies of Scale**: Cost advantages at scale\<newline>'' @
   ''- **Barrier Creation Potential**: Ways to build competitive moats\<newline>'' @
   ''- **Strategic Asset Development**: Valuable resources and capabilities to build\<newline>'' @
   ''\<newline>'' @
   ''### 1.3 EXECUTION STRENGTHS\<newline>'' @
   ''- **Resource Efficiency**: Lean approaches and capital efficiency\<newline>'' @
   ''- **Implementation Feasibility**: Realistic and achievable execution plan\<newline>'' @
   ''- **Risk Mitigation**: Well-planned risk management strategies\<newline>'' @
   ''- **Scalability Design**: Built-in scaling mechanisms\<newline>'' @
   ''- **Partnership Potential**: Strategic alliance opportunities\<newline>'' @
   ''- **Technology Advantages**: Technical superiority and innovation\<newline>'' @
   ''\<newline>'' @
   ''### 1.4 FINANCIAL UPSIDE\<newline>'' @
   ''- **Revenue Diversification**: Multiple revenue stream opportunities\<newline>'' @
   ''- **High Margin Potential**: Path to strong profitability\<newline>'' @
   ''- **Asset-Light Model**: Low capital requirements for growth\<newline>'' @
   ''- **Recurring Revenue**: Subscription and recurring income potential\<newline>'' @
   ''- **Exit Opportunities**: Acquisition and IPO potential\<newline>'' @
   ''- **Investment Attractiveness**: Appeal to investors and funding sources\<newline>'' @
   ''\<newline>'' @
   ''## 2. COMPREHENSIVE NEGATIVE ANALYSIS & RISKS\<newline>'' @
   ''\<newline>'' @
   ''### 2.1 MARKET CHALLENGES\<newline>'' @
   ''- **Market Maturity Risks**: Potential market saturation and declining growth\<newline>'' @
   ''- **Customer Adoption Barriers**: Obstacles to customer acceptance and usage\<newline>'' @
   ''- **Market Education Needs**: Cost and time to educate market about solution\<newline>'' @
   ''- **Seasonal/Cyclical Risks**: Business cycle and seasonal demand variations\<newline>'' @
   ''- **Market Fragmentation**: Difficulty in capturing significant market share\<newline>'' @
   ''- **Regulatory Uncertainty**: Potential adverse regulatory changes\<newline>'' @
   ''\<newline>'' @
   ''### 2.2 COMPETITIVE THREATS\<newline>'' @
   ''- **Incumbent Advantage**: Established players' response capabilities\<newline>'' @
   ''- **Big Tech Entry**: Risk of major technology companies entering market\<newline>'' @
   ''- **Low Barrier to Entry**: Easy replication by competitors\<newline>'' @
   ''- **Substitute Solutions**: Alternative approaches that could displace the idea\<newline>'' @
   ''- **Price Competition**: Potential race to the bottom on pricing\<newline>'' @
   ''- **Patent/IP Risks**: Intellectual property challenges and litigation risks\<newline>'' @
   ''\<newline>'' @
   ''### 2.3 EXECUTION VULNERABILITIES\<newline>'' @
   ''- **Resource Constraints**: Funding, talent, and capability gaps\<newline>'' @
   ''- **Technical Complexity**: Development and implementation challenges\<newline>'' @
   ''- **Scaling Difficulties**: Operational challenges in rapid growth\<newline>'' @
   ''- **Quality Control**: Maintaining standards during expansion\<newline>'' @
   ''- **Key Person Dependencies**: Over-reliance on specific individuals\<newline>'' @
   ''- **Timeline Optimism**: Potential delays and execution setbacks\<newline>'' @
   ''\<newline>'' @
   ''### 2.4 FINANCIAL RISKS\<newline>'' @
   ''- **High Customer Acquisition Cost**: Expensive marketing and sales requirements\<newline>'' @
   ''- **Long Payback Periods**: Extended time to profitability\<newline>'' @
   ''- **Cash Flow Challenges**: Working capital and burn rate issues\<newline>'' @
   ''- **Unit Economics**: Difficulty achieving positive unit economics\<newline>'' @
   ''- **Market Price Pressure**: Downward pressure on pricing and margins\<newline>'' @
   ''- **Investment Requirements**: Higher than expected capital needs\<newline>'' @
   ''\<newline>'' @
   ''### 2.5 STRATEGIC VULNERABILITIES\<newline>'' @
   ''- **Platform Dependency**: Over-reliance on third-party platforms\<newline>'' @
   ''- **Supply Chain Risks**: Disruption in key suppliers or partners\<newline>'' @
   ''- **Technology Obsolescence**: Risk of technical approach becoming outdated\<newline>'' @
   ''- **Talent Competition**: Difficulty attracting and retaining key talent\<newline>'' @
   ''- **Geographic Limitations**: Challenges in global expansion\<newline>'' @
   ''- **Regulatory Compliance**: Ongoing compliance costs and complexity\<newline>'' @
   ''\<newline>'' @
   ''## 3. STRATEGIC MODIFICATIONS FOR COMPETITIVE ADVANTAGE\<newline>'' @
   ''\<newline>'' @
   ''### 3.1 PRODUCT DIFFERENTIATION STRATEGIES\<newline>'' @
   ''**Enhanced Features & Capabilities**:\<newline>'' @
   ''- **Unique Feature Additions**: Specific features competitors don't offer\<newline>'' @
   ''- **Superior User Experience**: UX/UI improvements for competitive advantage\<newline>'' @
   ''- **Advanced Analytics**: AI/ML capabilities for better insights\<newline>'' @
   ''- **Integration Capabilities**: Seamless connectivity with popular tools\<newline>'' @
   ''- **Customization Options**: Flexible configuration for different use cases\<newline>'' @
   ''- **Performance Optimization**: Speed, reliability, and efficiency improvements\<newline>'' @
   ''\<newline>'' @
   ''**Technology Innovation**:\<newline>'' @
   ''- **Emerging Technology Integration**: AR/VR, blockchain, IoT applications\<newline>'' @
   ''- **AI/ML Enhancement**: Machine learning for predictive capabilities\<newline>'' @
   ''- **Mobile-First Design**: Optimized mobile experience\<newline>'' @
   ''- **Cloud-Native Architecture**: Scalable, distributed system design\<newline>'' @
   ''- **API-First Approach**: Ecosystem-friendly integration strategy\<newline>'' @
   ''- **Security Enhancement**: Advanced security and privacy features\<newline>'' @
   ''\<newline>'' @
   ''### 3.2 BUSINESS MODEL INNOVATIONS\<newline>'' @
   ''**Revenue Model Optimization**:\<newline>'' @
   ''- **Hybrid Revenue Streams**: Combining subscription, transaction, and advertising\<newline>'' @
   ''- **Freemium Strategy**: Free tier with premium upgrade path\<newline>'' @
   ''- **Usage-Based Pricing**: Pay-per-use or consumption-based models\<newline>'' @
   ''- **Marketplace Model**: Platform connecting buyers and sellers\<newline>'' @
   ''- **Data Monetization**: Leveraging data insights for additional revenue\<newline>'' @
   ''- **Partnership Revenue**: Revenue sharing with strategic partners\<newline>'' @
   ''\<newline>'' @
   ''**Value Chain Repositioning**:\<newline>'' @
   ''- **Vertical Integration**: Controlling more of the value chain\<newline>'' @
   ''- **Platform Strategy**: Becoming the platform others build on\<newline>'' @
   ''- **Ecosystem Creation**: Building network of complementary services\<newline>'' @
   ''- **White-Label Offering**: Licensing solution to other companies\<newline>'' @
   ''- **Consulting Services**: High-margin advisory services addition\<newline>'' @
   ''- **Training & Certification**: Educational revenue streams\<newline>'' @
   ''\<newline>'' @
   ''### 3.3 GO-TO-MARKET DIFFERENTIATION\<newline>'' @
   ''**Customer Acquisition Innovation**:\<newline>'' @
   ''- **Community-Driven Growth**: Building engaged user communities\<newline>'' @
   ''- **Viral Mechanisms**: Built-in sharing and referral features\<newline>'' @
   ''- **Content Marketing**: Thought leadership and educational content\<newline>'' @
   ''- **Partnership Channels**: Strategic distribution partnerships\<newline>'' @
   ''- **Direct Sales Excellence**: High-touch enterprise sales approach\<newline>'' @
   ''- **Digital Marketing Mastery**: Advanced SEO, SEM, and social strategies\<newline>'' @
   ''\<newline>'' @
   ''**Customer Success Differentiation**:\<newline>'' @
   ''- **Onboarding Excellence**: Best-in-class customer onboarding experience\<newline>'' @
   ''- **Success Management**: Proactive customer success programs\<newline>'' @
   ''- **Support Innovation**: AI-powered support and self-service options\<newline>'' @
   ''- **Training Programs**: Comprehensive user education and certification\<newline>'' @
   ''- **Community Building**: User forums and peer-to-peer support\<newline>'' @
   ''- **Feedback Loops**: Continuous product improvement based on user input\<newline>'' @
   ''\<newline>'' @
   ''### 3.4 OPERATIONAL EXCELLENCE MODIFICATIONS\<newline>'' @
   ''**Process Innovation**:\<newline>'' @
   ''- **Automation Strategy**: Automated workflows and processes\<newline>'' @
   ''- **Quality Systems**: Six Sigma or similar quality management\<newline>'' @
   ''- **Agile Development**: Rapid iteration and continuous deployment\<newline>'' @
   ''- **Data-Driven Operations**: Analytics for operational optimization\<newline>'' @
   ''- **Remote-First Operations**: Distributed team optimization\<newline>'' @
   ''- **Sustainability Focus**: Environmental and social responsibility\<newline>'' @
   ''\<newline>'' @
   ''**Strategic Positioning**:\<newline>'' @
   ''- **Niche Domination**: Becoming the leader in a specific segment\<newline>'' @
   ''- **Premium Positioning**: Higher-quality, higher-price strategy\<newline>'' @
   ''- **Cost Leadership**: Lowest-cost provider strategy\<newline>'' @
   ''- **Innovation Leadership**: Continuous innovation and R&D investment\<newline>'' @
   ''- **Customer Intimacy**: Deep customer relationships and customization\<newline>'' @
   ''- **Ecosystem Orchestration**: Coordinating network of partners\<newline>'' @
   ''\<newline>'' @
   ''## 4. COMPETITIVE DIFFERENTIATION STRATEGIES\<newline>'' @
   ''\<newline>'' @
   ''### 4.1 IMMEDIATE DIFFERENTIATION (0-6 months)\<newline>'' @
   ''**Quick Wins**:\<newline>'' @
   ''- **Feature Gaps**: Address specific gaps in competitor offerings\<newline>'' @
   ''- **User Experience**: Superior design and usability\<newline>'' @
   ''- **Customer Service**: Exceptional support and responsiveness\<newline>'' @
   ''- **Pricing Strategy**: Competitive pricing with better value\<newline>'' @
   ''- **Marketing Messaging**: Clear, compelling value proposition\<newline>'' @
   ''- **Partnership Announcements**: Strategic partnerships for credibility\<newline>'' @
   ''\<newline>'' @
   ''### 4.2 MEDIUM-TERM DIFFERENTIATION (6-18 months)\<newline>'' @
   ''**Competitive Moats**:\<newline>'' @
   ''- **Network Effects**: Building user network that creates value\<newline>'' @
   ''- **Data Advantages**: Proprietary data sets and insights\<newline>'' @
   ''- **Brand Building**: Strong brand recognition and loyalty\<newline>'' @
   ''- **Talent Acquisition**: Attracting top talent in the industry\<newline>'' @
   ''- **Technology Leadership**: Advanced technical capabilities\<newline>'' @
   ''- **Customer Lock-in**: Switching costs and integration depth\<newline>'' @
   ''\<newline>'' @
   ''### 4.3 LONG-TERM DIFFERENTIATION (18+ months)\<newline>'' @
   ''**Sustainable Advantages**:\<newline>'' @
   ''- **Innovation Pipeline**: Continuous R&D and new product development\<newline>'' @
   ''- **Market Ecosystem**: Becoming central to industry ecosystem\<newline>'' @
   ''- **Global Expansion**: International market presence\<newline>'' @
   ''- **Acquisition Strategy**: Strategic acquisitions for capability building\<newline>'' @
   ''- **Platform Evolution**: Evolution from product to platform\<newline>'' @
   ''- **Industry Standards**: Setting or influencing industry standards\<newline>'' @
   ''\<newline>'' @
   ''## 5. IMPLEMENTATION PRIORITIZATION\<newline>'' @
   ''\<newline>'' @
   ''### 5.1 HIGH-IMPACT, LOW-EFFORT MODIFICATIONS\<newline>'' @
   ''**Immediate Actions** (implement within 30 days):\<newline>'' @
   ''- [List specific modifications that can be implemented quickly]\<newline>'' @
   ''\<newline>'' @
   ''### 5.2 HIGH-IMPACT, HIGH-EFFORT MODIFICATIONS  \<newline>'' @
   ''**Strategic Initiatives** (6-12 month projects):\<newline>'' @
   ''- [List major strategic changes requiring significant investment]\<newline>'' @
   ''\<newline>'' @
   ''### 5.3 INNOVATION EXPERIMENTS\<newline>'' @
   ''**Future Opportunities** (research and pilot projects):\<newline>'' @
   ''- [List experimental approaches to test and validate]\<newline>'' @
   ''\<newline>'' @
   ''## 6. SUCCESS METRICS & MONITORING\<newline>'' @
   ''\<newline>'' @
   ''### 6.1 Competitive Position Metrics\<newline>'' @
   ''- Market share growth vs competitors\<newline>'' @
   ''- Brand recognition and sentiment\<newline>'' @
   ''- Customer acquisition cost vs competitors\<newline>'' @
   ''- Customer lifetime value comparison\<newline>'' @
   ''- Feature comparison scores\<newline>'' @
   ''- Innovation pipeline strength\<newline>'' @
   ''\<newline>'' @
   ''### 6.2 Differentiation Effectiveness Metrics\<newline>'' @
   ''- Unique value proposition recognition\<newline>'' @
   ''- Price premium capability\<newline>'' @
   ''- Customer switching rates (churn)\<newline>'' @
   ''- Net promoter score vs competitors\<newline>'' @
   ''- Media and analyst recognition\<newline>'' @
   ''- Partnership quality and quantity\<newline>'' @
   ''\<newline>'' @
   ''## 7. STRATEGIC RECOMMENDATIONS SUMMARY\<newline>'' @
   ''\<newline>'' @
   ''**TOP 5 POSITIVE FACTORS TO LEVERAGE**:\<newline>'' @
   ''1. [Specific positive factor with action plan]\<newline>'' @
   ''2. [Specific positive factor with action plan]\<newline>'' @
   ''3. [Specific positive factor with action plan]\<newline>'' @
   ''4. [Specific positive factor with action plan]\<newline>'' @
   ''5. [Specific positive factor with action plan]\<newline>'' @
   ''\<newline>'' @
   ''**TOP 5 CRITICAL RISKS TO MITIGATE**:\<newline>'' @
   ''1. [Specific risk with mitigation strategy]\<newline>'' @
   ''2. [Specific risk with mitigation strategy]\<newline>'' @
   ''3. [Specific risk with mitigation strategy]\<newline>'' @
   ''4. [Specific risk with mitigation strategy]\<newline>'' @
   ''5. [Specific risk with mitigation strategy]\<newline>'' @
   ''\<newline>'' @
   ''**TOP 5 DIFFERENTIATION OPPORTUNITIES**:\<newline>'' @
   ''1. [Specific differentiation with implementation approach]\<newline>'' @
   ''2. [Specific differentiation with implementation approach]\<newline>'' @
   ''3. [Specific differentiation with implementation approach]\<newline>'' @
   ''4. [Specific differentiation with implementation approach]\<newline>'' @
   ''5. [Specific differentiation with implementation approach]\<newline>'' @
   ''\<newline>'' @
   ''**STRATEGIC DECISION FRAMEWORK**:\<newline>'' @
   ''- Investment priority matrix\<newline>'' @
   ''- Risk tolerance guidelines\<newline>'' @
   ''- Competitive response protocols\<newline>'' @
   ''- Innovation investment allocation\<newline>'' @
   ''- Partnership evaluation criteria\<newline>'' @
   ''\<newline>'' @
   ''**NEXT STEPS & ACTION ITEMS**:\<newline>'' @
   ''- Immediate actions (next 30 days)\<newline>'' @
   ''- Short-term initiatives (3-6 months)\<newline>'' @
   ''- Long-term strategic projects (12+ months)\<newline>'' @
   ''- Continuous monitoring requirements\<newline>'' @
   ''- Review and update schedule\<newline>'' @
   ''\<newline>'' @
   ''**OUTPUT REQUIREMENTS**:\<newline>'' @
   ''- Be extremely specific and actionable\<newline>'' @
   ''- Include quantitative estimates where possible\<newline>'' @
   ''- Provide clear implementation timelines\<newline>'' @
   ''- Consider resource requirements for each recommendation\<newline>'' @
   ''- Address both offensive (growth) and defensive (protection) strategies\<newline>'' @
   ''- Balance innovation with execution practicality\<newline>'' @
   ''- Consider different scenarios (optimistic, realistic, pessimistic)\<newline>'' @
   ''\<newline>'' @
   ''Begin your comprehensive strategic analysis now:''\<close>

text \<open>
  \<^verbatim>\<open>str.isspace\<close>, \<^verbatim>\<open>str.strip()\<close> and \<^verbatim>\<open>str.lower()\<close> on the characters a \<^typ>\<open>char\<close> can
  hold, and \<^verbatim>\<open>sep.join(lines)\<close>.
\<close>

definition isspace :: "char \<Rightarrow> bool" where
  "isspace c = ((of_char c :: nat) \<in> {9, 10, 11, 12, 13, 28, 29, 30, 31, 32, 133, 160})"

definition strip :: "string \<Rightarrow> string" where
  "strip s = rev (dropWhile isspace (rev (dropWhile isspace s)))"

definition lower_char :: "char \<Rightarrow> char" where
  "lower_char c =
     (let n = (of_char c :: nat)
      in if (65 \<le> n \<and> n \<le> 90) \<or> (192 \<le> n \<and> n \<le> 222 \<and> n \<noteq> 215) then char_of (n + 32) else c)"

definition lower :: "string \<Rightarrow> string" where
  "lower s = map lower_char s"

fun join :: "string \<Rightarrow> string list \<Rightarrow> string" where
  "join sep [] = []"
| "join sep [x] = x"
| "join sep (x # y # ys) = x @ sep @ join sep (y # ys)"

text \<open>
  The paste loop \<^verbatim>\<open>while True: line = input(); if line == "": break; lines.append(line)\<close>,
  over the lines the console still holds.
\<close>

fun paste_lines :: "string list \<Rightarrow> string list \<Rightarrow> (exn + string list) \<times> string list" where
  "paste_lines lines [] = (Inl (Exn EOFError ''EOF when reading a line''), [])"
| "paste_lines lines (line # rest) =
     (if line = [] then (Inr lines, rest) else paste_lines (lines @ [line]) rest)"

text \<open>
  What \<^verbatim>\<open>analyze_strategy\<close> does for a report it was not given: option 1 pastes it, any
  other answer names a file, and a file that cannot be read gives the fallback text.
  The source has this block twice, for the market report and for the execution plan,
  with the fallback texts \<^verbatim>\<open>Market research not available\<close> and
  \<^verbatim>\<open>Execution plan not available\<close>.
\<close>

definition ask_for_report :: "string \<Rightarrow> env \<Rightarrow> world \<Rightarrow> (exn + string) \<times> world" where
  "ask_for_report fallback e w =
     (case input w of
        (Inl ex, w1) \<Rightarrow> (Inl ex, w1)
      | (Inr answer, w1) \<Rightarrow>
          (let choice = strip answer
           in if choice = ''1'' then
                (case paste_lines [] (stdin w1) of
                   (Inl ex, rest) \<Rightarrow> (Inl ex, w1\<lparr>stdin := rest\<rparr>)
                 | (Inr lines, rest) \<Rightarrow> (Inr (join [CHR 0x0A] lines), w1\<lparr>stdin := rest\<rparr>))
              else
                (case input w1 of
                   (Inl ex, w2) \<Rightarrow> (Inl ex, w2)
                 | (Inr file_path, w2) \<Rightarrow>
                     (case files e file_path of
                        FileText t \<Rightarrow> (Inr t, w2)
                      | OpenFails ex \<Rightarrow> (Inr fallback, w2)))))"

definition or_ask_for_report ::
  "string \<Rightarrow> env \<Rightarrow> string option \<Rightarrow> world \<Rightarrow> (exn + string) \<times> world" where
  "or_ask_for_report fallback e x w =
     (case x of
        None \<Rightarrow> ask_for_report fallback e w
      | Some s \<Rightarrow> if s = [] then ask_for_report fallback e w else (Inr s, w))"

text \<open>The call of \<^verbatim>\<open>analyze_strategy\<close>; \<^verbatim>\<open>self.model\<close> is \<^verbatim>\<open>openai/gpt-oss-120b\<close>.\<close>

definition strategy_request :: "string \<Rightarrow> request" where
  "strategy_request analysis_prompt =
     \<lparr>model = ''openai/gpt-oss-120b'',
      messages =
        [(''system'', ''You are a world-class business strategist and competitive intelligence expert. Provide comprehensive strategic analysis with specific, actionable recommendations for competitive advantage and differentiation. Be detailed, analytical, and practical in your recommendations.''),
         (''user'', analysis_prompt)],
      temperature = 8 / 10,
      max_tokens = 8000,
      top_p = Some (9 / 10),
      stream = Some False\<rparr>"

text \<open>\<^verbatim>\<open>report[:500] + "..." if len(report) > 500 else report\<close>.\<close>

definition summary_500 :: "string \<Rightarrow> string" where
  "summary_500 report = (if length report > 500 then slice_to 500 report @ ''...'' else report)"

definition strategy_result ::
  "env \<Rightarrow> string \<Rightarrow> string \<Rightarrow> string \<Rightarrow> world \<Rightarrow> completion \<Rightarrow> exn + pydict" where
  "strategy_result e user_idea market_report execution_plan w completion =
     (case choices completion of
        [] \<Rightarrow> Inl (Exn IndexError ''list index out of range'')
      | m # _ \<Rightarrow>
          let strategic_analysis = text_value (content m)
          in (case usage completion of
                IsNone \<Rightarrow> Inl (Exn AttributeError none_has_no_total_tokens)
              | u \<Rightarrow>
                  Inr [(''user_idea'', PStr user_idea),
                       (''market_report_summary'', PStr (summary_500 market_report)),
                       (''execution_plan_summary'', PStr (summary_500 execution_plan)),
                       (''strategic_analysis'', strategic_analysis),
                       (''analysis_timestamp'', PStr (datetime_now_isoformat e w)),
                       (''model_used'', PStr ''openai/gpt-oss-120b''),
                       (''analysis_type'', PStr ''comprehensive_strategic_analysis''),
                       (''analysis_metadata'',
                        PDict
                          [(''total_tokens'', (case u of Has n \<Rightarrow> PInt n | _ \<Rightarrow> PNone)),
                           (''analysis_depth'', PStr ''comprehensive_strategic_differentiation''),
                           (''analysis_framework'', PStr ''positive_negative_differentiation_analysis'')])]))"

definition strategy_failure :: "env \<Rightarrow> string \<Rightarrow> string \<Rightarrow> world \<Rightarrow> pyval" where
  "strategy_failure e message user_idea w =
     PDict [(''error'', PStr message),
            (''user_idea'', PStr user_idea),
            (''timestamp'', PStr (datetime_now_isoformat e w))]"

text \<open>
  The loop of \<^verbatim>\<open>analyze_strategy\<close>. Nothing follows it in the source, so a loop that ends
  without a \<^verbatim>\<open>return\<close> gives \<^verbatim>\<open>None\<close>: the first equation.
\<close>

fun strategy_attempts ::
  "env \<Rightarrow> string \<Rightarrow> string \<Rightarrow> string \<Rightarrow> string \<Rightarrow> nat \<Rightarrow> nat \<Rightarrow> nat list \<Rightarrow> world \<Rightarrow>
   pyval \<times> world" where
  "strategy_attempts e user_idea market_report execution_plan analysis_prompt max_retries retry_delay
     [] w = (PNone, w)"
| "strategy_attempts e user_idea market_report execution_plan analysis_prompt max_retries retry_delay
     (attempt # rest) w =
     (case chat_completions_create e (strategy_request analysis_prompt) w of
        (Returns completion, w1) \<Rightarrow>
          (case strategy_result e user_idea market_report execution_plan w1 completion of
             Inr result \<Rightarrow> (PDict result, w1)
           | Inl ex \<Rightarrow>
               (strategy_failure e (''Strategic analysis failed: '' @ str ex) user_idea w1, w1))
      | (Raises ex, w1) \<Rightarrow>
          if exn_class ex = RateLimitError then
            if attempt < max_retries - 1 then
              strategy_attempts e user_idea market_report execution_plan analysis_prompt
                max_retries retry_delay rest (asyncio_sleep retry_delay w1)
            else
              (strategy_failure e (''Strategic analysis failed after multiple retries: '' @ str ex)
                 user_idea w1, w1)
          else
            (strategy_failure e (''Strategic analysis failed: '' @ str ex) user_idea w1, w1))"

definition analyze_strategy ::
  "env \<Rightarrow> string option \<Rightarrow> string option \<Rightarrow> string option \<Rightarrow> world \<Rightarrow> (exn + pyval) \<times> world" where
  "analyze_strategy e user_idea0 market_report0 execution_plan0 w =
     (case or_input user_idea0 w of
        (Inl ex, w1) \<Rightarrow> (Inl ex, w1)
      | (Inr user_idea, w1) \<Rightarrow>
          (case or_ask_for_report ''Market research not available'' e market_report0 w1 of
             (Inl ex, w2) \<Rightarrow> (Inl ex, w2)
           | (Inr market_report, w2) \<Rightarrow>
               (case or_ask_for_report ''Execution plan not available'' e execution_plan0 w2 of
                  (Inl ex, w3) \<Rightarrow> (Inl ex, w3)
                | (Inr execution_plan, w3) \<Rightarrow>
                    (let analysis_prompt =
                           get_strategic_analysis_prompt user_idea market_report execution_plan;
                         max_retries = 3;
                         retry_delay = 61
                     in case strategy_attempts e user_idea market_report execution_plan
                               analysis_prompt max_retries retry_delay [0..<max_retries] w3 of
                          (result, w4) \<Rightarrow> (Inr result, w4)))))"

definition swot_prompt :: "string \<Rightarrow> string" where
  \<open>swot_prompt user_idea =
   ''Conduct SWOT analysis for: '' @ user_idea @ ''\<newline>'' @
   ''\<newline>'' @
   ''**STRENGTHS** (Internal Positive Factors):\<newline>'' @
   ''- List 5 key internal advantages and capabilities\<newline>'' @
   ''\<newline>'' @
   ''**WEAKNESSES** (Internal Negative Factors):  \<newline>'' @
   ''- List 5 key internal limitations and challenges\<newline>'' @
   ''\<newline>'' @
   ''**OPPORTUNITIES** (External Positive Factors):\<newline>'' @
   ''- List 5 key market opportunities and external factors\<newline>'' @
   ''\<newline>'' @
   ''**THREATS** (External Negative Factors):\<newline>'' @
   ''- List 5 key competitive and market threats\<newline>'' @
   ''\<newline>'' @
   ''For each factor, provide brief explanation and strategic implication.\<newline>'' @
   ''Keep concise but actionable (under 1000 words).''\<close>

definition swot_request :: "string \<Rightarrow> request" where
  "swot_request prompt =
     \<lparr>model = ''openai/gpt-oss-120b'',
      messages = [(''user'', prompt)],
      temperature = 7 / 10,
      max_tokens = 1500,
      top_p = None,
      stream = None\<rparr>"

text \<open>
  \<^verbatim>\<open>quick_swot_analysis\<close>: one call in a \<^verbatim>\<open>try\<close>, no loop. The result is the \<^verbatim>\<open>content\<close>
  as it comes, with nothing around it, or the text of the failure.
\<close>

definition quick_swot_analysis :: "env \<Rightarrow> string \<Rightarrow> world \<Rightarrow> pyval \<times> world" where
  "quick_swot_analysis e user_idea w =
     (case chat_completions_create e (swot_request (swot_prompt user_idea)) w of
        (Returns completion, w1) \<Rightarrow>
          (case choices completion of
             [] \<Rightarrow> (PStr (''SWOT analysis failed: '' @ ''list index out of range''), w1)
           | m # _ \<Rightarrow> (text_value (content m), w1))
      | (Raises ex, w1) \<Rightarrow> (PStr (''SWOT analysis failed: '' @ str ex), w1))"

section \<open>Chatbot.py\<close>

definition load_report :: "env \<Rightarrow> string \<Rightarrow> exn + string" where
  "load_report e path =
     (case files e path of
        FileText t \<Rightarrow> Inr t
      | OpenFails ex \<Rightarrow>
          if exn_class ex = FileNotFoundError then Inr (''[[REPORT NOT FOUND: '' @ path @ '']]'')
          else Inl ex)"

definition build_prompt :: "string \<Rightarrow> string \<Rightarrow> string \<Rightarrow> string \<Rightarrow> string" where
  \<open>build_prompt mr ep sa question =
   ''\<newline>'' @
   ''You are an expert innovation agent assistant. Answer the user's question using ONLY the information\<newline>'' @
   ''from the following three reports. Provide a clear, concise answer.\<newline>'' @
   ''\<newline>'' @
   ''--- MARKET RESEARCH REPORT ---\<newline>'' @
   mr @ ''\<newline>'' @
   ''\<newline>'' @
   ''--- EXECUTION PLAN REPORT ---\<newline>'' @
   ep @ ''\<newline>'' @
   ''\<newline>'' @
   ''--- STRATEGIC ANALYSIS REPORT ---\<newline>'' @
   sa @ ''\<newline>'' @
   ''\<newline>'' @
   ''--- USER QUESTION ---\<newline>'' @
   question @ ''\<newline>''\<close>

definition chat_request :: "string \<Rightarrow> request" where
  "chat_request prompt =
     \<lparr>model = ''openai/gpt-oss-120b'',
      messages =
        [(''system'', ''You are a helpful innovation agent assistant.''),
         (''user'', prompt)],
      temperature = 7 / 10,
      max_tokens = 800,
      top_p = Some (9 / 10),
      stream = Some False\<rparr>"

text \<open>
  The \<^verbatim>\<open>while True\<close> loop of \<^verbatim>\<open>main\<close>, over the lines the console still holds. The end of
  the input, an empty question and the words \<^verbatim>\<open>exit\<close> and \<^verbatim>\<open>quit\<close> leave the loop (a
  \<^verbatim>\<open>KeyboardInterrupt\<close> at the prompt leaves it as the end of the input does, and is not
  told apart here). Each
  other question is one call in a \<^verbatim>\<open>try\<close>; the answer, or the error (also the one of
  \<^verbatim>\<open>strip\<close> on a \<^verbatim>\<open>content\<close> that is \<^verbatim>\<open>None\<close>), is printed and the loop goes on, so the
  outcome of the call changes nothing that is kept here.
\<close>

fun chat_loop :: "env \<Rightarrow> string \<Rightarrow> string \<Rightarrow> string \<Rightarrow> string list \<Rightarrow> event list \<Rightarrow> world" where
  "chat_loop e mr ep sa [] evs = \<lparr>events = evs, stdin = []\<rparr>"
| "chat_loop e mr ep sa (line # rest) evs =
     (let question = strip line
      in if question = [] \<or> lower question \<in> {''exit'', ''quit''} then
           \<lparr>events = evs, stdin = rest\<rparr>
         else
           (let prompt = build_prompt mr ep sa question
            in case chat_completions_create e (chat_request prompt) \<lparr>events = evs, stdin = rest\<rparr> of
                 (answer, w1) \<Rightarrow> chat_loop e mr ep sa rest (events w1)))"

text \<open>\<^verbatim>\<open>main\<close>: the three reports are loaded, then the questions are answered.\<close>

definition chatbot_main :: "env \<Rightarrow> world \<Rightarrow> (exn + unit) \<times> world" where
  "chatbot_main e w =
     (case load_report e ''market_research_analysis.md'' of
        Inl ex \<Rightarrow> (Inl ex, w)
      | Inr mr \<Rightarrow>
          (case load_report e ''execution_plan.md'' of
             Inl ex \<Rightarrow> (Inl ex, w)
           | Inr ep \<Rightarrow>
               (case load_report e ''strategic_analysis.md'' of
                  Inl ex \<Rightarrow> (Inl ex, w)
                | Inr sa \<Rightarrow> (Inr (), chat_loop e mr ep sa (stdin w) (events w)))))"

section \<open>app.py\<close>

text \<open>
  Step 2 of the dashboard's first tab with the button \<^verbatim>\<open>Generate Market Research\<close> pressed.
  The button is drawn only under \<^verbatim>\<open>if user_idea and len(user_idea) > 20\<close>; the result is
  stored in \<^verbatim>\<open>st.session_state.market_research\<close> when it has no \<^verbatim>\<open>error\<close> key. The second
  component is the value stored, \<open>None\<close> when nothing is.
\<close>

definition run_market_research :: "env \<Rightarrow> string \<Rightarrow> world \<Rightarrow> pydict \<times> world" where
  "run_market_research e idea w = analyze_market_opportunity e idea w"

definition generate_market_research_pressed :: "env \<Rightarrow> string \<Rightarrow> world \<Rightarrow> pydict option \<times> world" where
  "generate_market_research_pressed e user_idea w =
     (if user_idea \<noteq> [] \<and> length user_idea > 20 then
        (case run_market_research e user_idea w of
           (result, w1) \<Rightarrow>
             if \<not> has_key result ''error'' then (Some result, w1) else (None, w1))
      else (None, w))"

text \<open>
  What an f-string writes for a value, \<^verbatim>\<open>str(v)\<close>: the text itself, \<^verbatim>\<open>None\<close>, a number.
  For a list or a dictionary Python writes its \<^verbatim>\<open>repr\<close>, which is not modelled: the
  result is \<open>None\<close> there.
\<close>

definition str_int :: "int \<Rightarrow> string" where
  "str_int i = (if i < 0 then ''-'' @ str_nat (nat (- i)) else str_nat (nat i))"

fun format_value :: "pyval \<Rightarrow> string option" where
  "format_value (PStr s) = Some s"
| "format_value PNone = Some ''None''"
| "format_value (PInt i) = Some (str_int i)"
| "format_value (PList xs) = None"
| "format_value (PDict d) = None"

text \<open>
  \<^verbatim>\<open>chatbot_interface\<close>. An entry of the session state is \<open>None\<close> before its step has
  run, else the dictionary stored; a test such as \<^verbatim>\<open>if st.session_state.market_research\<close>
  fails for \<^verbatim>\<open>None\<close> and for the empty dictionary. The function returns at once, with no
  context built, when that test fails for the market research.
\<close>

definition chatbot_available :: "pydict option \<Rightarrow> bool" where
  "chatbot_available market_research =
     (case market_research of None \<Rightarrow> False | Some d \<Rightarrow> d \<noteq> [])"

text \<open>
  The context it builds otherwise, from the idea and the three entries. In the source the
  slice \<^verbatim>\<open>[:3000]\<close> stands after the closing brace of the f-string field, so it is text
  of the f-string: the value is written whole and the seven characters \<^verbatim>\<open>[:3000]\<close>
  follow it.
\<close>

definition context_part :: "string \<Rightarrow> string \<Rightarrow> pydict option \<Rightarrow> string option" where
  \<open>context_part title key entry =
     (case entry of
        None \<Rightarrow> Some []
      | Some d \<Rightarrow>
          if d = [] then Some []
          else (case format_value (dict_get d key (PStr [])) of
                  None \<Rightarrow> None
                | Some text \<Rightarrow> Some (title @ ''\<newline>'' @ text @ ''[:3000]\<newline>\<newline>'')))\<close>

definition chatbot_interface_context ::
  "string \<Rightarrow> pydict option \<Rightarrow> pydict option \<Rightarrow> pydict option \<Rightarrow> string option" where
  \<open>chatbot_interface_context user_idea market_research execution_plan strategic_analysis =
     (case context_part ''MARKET RESEARCH:'' ''market_research_analysis'' market_research of
        None \<Rightarrow> None
      | Some part1 \<Rightarrow>
          (case context_part ''EXECUTION PLAN:'' ''execution_plan'' execution_plan of
             None \<Rightarrow> None
           | Some part2 \<Rightarrow>
               (case context_part ''STRATEGIC ANALYSIS:'' ''strategic_analysis'' strategic_analysis of
                  None \<Rightarrow> None
                | Some part3 \<Rightarrow>
                    Some (''USER IDEA: '' @ user_idea @ ''\<newline>\<newline>'' @ part1 @ part2 @ part3))))\<close>

section \<open>What the backend does during a stage call\<close>

text \<open>
  The answers of the backend are sorted as the handlers of the loops sort them: a
  \<^verbatim>\<open>RateLimitError\<close>, any other exception, or a completion.
\<close>

definition is_rate_limit :: "response \<Rightarrow> bool" where
  "is_rate_limit r = (case r of Raises ex \<Rightarrow> exn_class ex = RateLimitError | Returns c \<Rightarrow> False)"

definition is_fatal :: "response \<Rightarrow> bool" where
  "is_fatal r = (case r of Raises ex \<Rightarrow> exn_class ex \<noteq> RateLimitError | Returns c \<Rightarrow> False)"

definition is_transient :: "response \<Rightarrow> bool" where
  "is_transient r =
     (case r of
        Raises ex \<Rightarrow> exn_class ex = APIConnectionError \<or> exn_class ex = APITimeoutError
      | Returns c \<Rightarrow> False)"

definition is_completion :: "response \<Rightarrow> bool" where
  "is_completion r = (case r of Raises ex \<Rightarrow> False | Returns c \<Rightarrow> True)"

text \<open>The \<open>k\<close> answers to \<open>req\<close> from call number \<open>n\<close> on are all rate limits.\<close>

definition rate_limited_upto :: "env \<Rightarrow> request \<Rightarrow> nat \<Rightarrow> nat \<Rightarrow> bool" where
  "rate_limited_upto e req n k = (\<forall>i<k. is_rate_limit (backend e (n + i) req))"

text \<open>
  A completion the stage functions can read to the end: it has a first choice, and its
  \<^verbatim>\<open>usage\<close>, when it has one, is not \<^verbatim>\<open>None\<close>.
\<close>

definition readable :: "completion \<Rightarrow> bool" where
  "readable c = (choices c \<noteq> [] \<and> usage c \<noteq> IsNone)"

text \<open>
  A completion succeeds within the budget of three attempts: after fewer than three rate
  limits the backend returns a readable completion.
\<close>

definition completes_within_budget :: "env \<Rightarrow> request \<Rightarrow> nat \<Rightarrow> bool" where
  "completes_within_budget e req n =
     (\<exists>k<3. rate_limited_upto e req n k \<and>
        (\<exists>c. backend e (n + k) req = Returns c \<and> readable c))"

text \<open>
  The backend returns a completion within the budget of three attempts, whatever the
  completion holds.
\<close>

definition returns_within_budget :: "env \<Rightarrow> request \<Rightarrow> nat \<Rightarrow> bool" where
  "returns_within_budget e req n =
     (\<exists>k<3. rate_limited_upto e req n k \<and> is_completion (backend e (n + k) req))"

text \<open>The request each looping stage sends, from its arguments.\<close>

definition market_research_call :: "string \<Rightarrow> request" where
  "market_research_call user_idea =
     market_research_request (get_universal_market_research_prompt user_idea)"

definition web_research_call :: "string \<Rightarrow> string \<Rightarrow> request" where
  "web_research_call user_idea market_report =
     web_research_request (get_web_research_prompt user_idea market_report)"

definition strategy_call :: "string \<Rightarrow> string \<Rightarrow> string \<Rightarrow> request" where
  "strategy_call user_idea market_report execution_plan =
     strategy_request (get_strategic_analysis_prompt user_idea market_report execution_plan)"

text \<open>
  The events of \<open>k\<close> rate-limited attempts and one more attempt: each of the \<open>k\<close> is
  followed by its delay, the last attempt by nothing.
\<close>

definition backoff_trace :: "request \<Rightarrow> nat \<Rightarrow> nat \<Rightarrow> event list" where
  "backoff_trace req delay k =
     concat (replicate k [BackendCall req, Sleep delay]) @ [BackendCall req]"

text \<open>The questions the chat loop sends: the lines before the first one that leaves the loop.\<close>

definition leaves_chat :: "string \<Rightarrow> bool" where
  "leaves_chat line = (strip line = [] \<or> lower (strip line) \<in> {''exit'', ''quit''})"

section \<open>The shape the three loops share\<close>

text \<open>
  The loops of \<^verbatim>\<open>analyze_market_opportunity\<close>, \<^verbatim>\<open>research_execution_strategies\<close> and
  \<^verbatim>\<open>analyze_strategy\<close> are the same statement three times, up to the request and to what
  each of the four exits returns: after a completion, after an exception that is not a
  rate limit, after the rate limit of the last attempt, and after the loop. \<open>retry_loop\<close>
  is that statement with the four exits as arguments; each loop above is proved to be an
  instance of it, and the policy is then proved once.
\<close>

fun retry_loop ::
  "env \<Rightarrow> request \<Rightarrow> (world \<Rightarrow> completion \<Rightarrow> 'r) \<Rightarrow> (world \<Rightarrow> exn \<Rightarrow> 'r) \<Rightarrow>
   (world \<Rightarrow> exn \<Rightarrow> 'r) \<Rightarrow> (world \<Rightarrow> 'r) \<Rightarrow> nat \<Rightarrow> nat \<Rightarrow> nat list \<Rightarrow> world \<Rightarrow> 'r \<times> world" where
  "retry_loop e req returned failed limited ended max_retries retry_delay [] w = (ended w, w)"
| "retry_loop e req returned failed limited ended max_retries retry_delay (attempt # rest) w =
     (case chat_completions_create e req w of
        (Returns completion, w1) \<Rightarrow> (returned w1 completion, w1)
      | (Raises ex, w1) \<Rightarrow>
          if exn_class ex = RateLimitError then
            if attempt < max_retries - 1 then
              retry_loop e req returned failed limited ended max_retries retry_delay rest
                (asyncio_sleep retry_delay w1)
            else (limited w1 ex, w1)
          else (failed w1 ex, w1))"

text \<open>The world after \<open>k\<close> rate-limited attempts, their delays and one more attempt.\<close>

definition after_backoff :: "request \<Rightarrow> nat \<Rightarrow> nat \<Rightarrow> world \<Rightarrow> world" where
  "after_backoff req delay k w = w\<lparr>events := events w @ backoff_trace req delay k\<rparr>"

section \<open>Sample surroundings\<close>

definition sample_completion :: completion where
  "sample_completion =
     \<lparr>choices = [\<lparr>content = Some ''report'', executed_tools = Absent, reasoning = Absent\<rparr>],
      usage = Has 1234\<rparr>"

text \<open>A completion whose text has 3001 characters, and one whose message has no text.\<close>

definition long_text :: string where
  "long_text = replicate 3001 (CHR ''x'')"

definition long_completion :: completion where
  "long_completion =
     \<lparr>choices = [\<lparr>content = Some long_text, executed_tools = Absent, reasoning = Absent\<rparr>],
      usage = Has 1234\<rparr>"

definition textless_completion :: completion where
  "textless_completion =
     \<lparr>choices = [\<lparr>content = None, executed_tools = Absent, reasoning = Absent\<rparr>],
      usage = Has 12\<rparr>"

definition fixed_clock :: "nat \<Rightarrow> string" where
  "fixed_clock n = ''2025-01-01T00:00:00''"

definition no_files :: "string \<Rightarrow> file_read" where
  "no_files path = OpenFails (Exn FileNotFoundError path)"

text \<open>A backend that gives the listed answers in turn and the sample completion after them.\<close>

definition scripted_env :: "response list \<Rightarrow> env" where
  "scripted_env rs =
     \<lparr>backend = (\<lambda>n req. if n < length rs then rs ! n else Returns sample_completion),
      clock = fixed_clock,
      files = no_files\<rparr>"

definition rate_limit_429 :: response where
  "rate_limit_429 = Raises (Exn RateLimitError ''429'')"

definition fresh_world :: world where
  "fresh_world = \<lparr>events = [], stdin = []\<rparr>"

section \<open>Lemmas about the runs\<close>

lemma less3: "k < 3 \<Longrightarrow> k = 0 \<or> k = Suc 0 \<or> k = Suc (Suc 0)"
  by arith

lemma rate_limited_upto_0: "rate_limited_upto e req n 0"
  by (simp add: rate_limited_upto_def)

lemma rate_limited_upto_Suc:
  "rate_limited_upto e req n (Suc k) \<longleftrightarrow>
     is_rate_limit (backend e n req) \<and> rate_limited_upto e req (Suc n) k"
proof
  assume h: "rate_limited_upto e req n (Suc k)"
  then have "is_rate_limit (backend e (n + 0) req)"
    unfolding rate_limited_upto_def by blast
  moreover have "rate_limited_upto e req (Suc n) k"
    unfolding rate_limited_upto_def
  proof (intro allI impI)
    fix i assume "i < k"
    then have "Suc i < Suc k" by simp
    with h have "is_rate_limit (backend e (n + Suc i) req)"
      unfolding rate_limited_upto_def by blast
    then show "is_rate_limit (backend e (Suc n + i) req)" by simp
  qed
  ultimately show "is_rate_limit (backend e n req) \<and> rate_limited_upto e req (Suc n) k" by simp
next
  assume h: "is_rate_limit (backend e n req) \<and> rate_limited_upto e req (Suc n) k"
  show "rate_limited_upto e req n (Suc k)"
    unfolding rate_limited_upto_def
  proof (intro allI impI)
    fix i assume "i < Suc k"
    show "is_rate_limit (backend e (n + i) req)"
    proof (cases i)
      case 0 with h show ?thesis by simp
    next
      case (Suc j)
      with \<open>i < Suc k\<close> have "j < k" by simp
      with h have "is_rate_limit (backend e (Suc n + j) req)"
        unfolding rate_limited_upto_def by blast
      with Suc show ?thesis by simp
    qed
  qed
qed

lemmas upto_simps = rate_limited_upto_0 rate_limited_upto_Suc

lemmas answer_defs = is_rate_limit_def is_fatal_def is_transient_def is_completion_def

subsection \<open>The policy of the loops\<close>

lemma calls_made_append:
  "calls_made (w\<lparr>events := events w @ evs\<rparr>) = calls_made w + length (filter is_call evs)"
  by (simp add: calls_made_def)

lemma filter_backoff:
  "length (filter is_call (concat (replicate k [BackendCall req, Sleep d]))) = k"
  by (induction k) simp_all

lemma length_backoff: "length (concat (replicate k [BackendCall req, Sleep d])) = 2 * k"
  by (induction k) simp_all

declare retry_loop.simps [simp del]

lemma retry_loop_skip:
  assumes "rate_limited_upto e req (calls_made w) k"
    and "\<forall>a \<in> set (take k as). a < m - 1" and "k \<le> length as"
  shows "retry_loop e req returned failed limited ended m d as w =
         retry_loop e req returned failed limited ended m d (drop k as)
           (w\<lparr>events := events w @ concat (replicate k [BackendCall req, Sleep d])\<rparr>)"
  using assms
proof (induction k arbitrary: as w)
  case 0
  then show ?case by simp
next
  case (Suc k)
  then obtain a rest where as: "as = a # rest"
    by (cases as) auto
  let ?w1 = "w\<lparr>events := events w @ [BackendCall req, Sleep d]\<rparr>"
  from Suc.prems(1) have rl: "is_rate_limit (backend e (calls_made w) req)"
    and rest: "rate_limited_upto e req (Suc (calls_made w)) k"
    by (simp_all add: rate_limited_upto_Suc)
  have c1: "calls_made ?w1 = Suc (calls_made w)"
    by (simp add: calls_made_def)
  from Suc.prems(2) as have a: "a < m - 1" by simp
  have "retry_loop e req returned failed limited ended m d as w =
        retry_loop e req returned failed limited ended m d rest ?w1"
    using rl a as
    by (auto simp: retry_loop.simps chat_completions_create_def asyncio_sleep_def
        is_rate_limit_def split: response.splits)
  also have "\<dots> = retry_loop e req returned failed limited ended m d (drop k rest)
      (?w1\<lparr>events := events ?w1 @ concat (replicate k [BackendCall req, Sleep d])\<rparr>)"
  proof (rule Suc.IH)
    show "rate_limited_upto e req (calls_made ?w1) k" using rest c1 by simp
    show "\<forall>a\<in>set (take k rest). a < m - 1" using Suc.prems(2) as by simp
    show "k \<le> length rest" using Suc.prems(3) as by simp
  qed
  finally show ?case using as by simp
qed

text \<open>The loop over the three attempts after \<open>k\<close> rate limits: it stands before attempt \<open>k\<close>.\<close>

lemma retry_loop_at:
  assumes "k < 3" and "rate_limited_upto e req (calls_made w) k"
  shows "retry_loop e req returned failed limited ended 3 d [0..<3] w =
         retry_loop e req returned failed limited ended 3 d (k # [Suc k..<3])
           (w\<lparr>events := events w @ concat (replicate k [BackendCall req, Sleep d])\<rparr>)"
proof -
  have small: "\<forall>a \<in> set (take k [0..<3]). a < 3 - 1"
    using assms(1) by auto
  have "drop k [0..<3] = [k..<3]"
    by simp
  also have "\<dots> = k # [Suc k..<3]"
    using assms(1) by (rule upt_conv_Cons)
  finally have "drop k [0..<3] = k # [Suc k..<3]" .
  with retry_loop_skip [OF assms(2) small, of returned failed limited ended d] assms(1)
  show ?thesis by simp
qed

lemma calls_after_backoff:
  "calls_made (w\<lparr>events := events w @ concat (replicate k [BackendCall req, Sleep d])\<rparr>) =
   calls_made w + k"
  by (simp add: calls_made_append filter_backoff)

lemma retry_loop_returns:
  assumes "k < 3" and "rate_limited_upto e req (calls_made w) k"
    and "backend e (calls_made w + k) req = Returns c"
  shows "retry_loop e req returned failed limited ended 3 d [0..<3] w =
         (returned (after_backoff req d k w) c, after_backoff req d k w)"
proof -
  let ?wk = "w\<lparr>events := events w @ concat (replicate k [BackendCall req, Sleep d])\<rparr>"
  have "retry_loop e req returned failed limited ended 3 d [0..<3] w =
        retry_loop e req returned failed limited ended 3 d (k # [Suc k..<3]) ?wk"
    by (rule retry_loop_at [OF assms(1,2)])
  also have "\<dots> = (returned (after_backoff req d k w) c, after_backoff req d k w)"
    using assms(3)
    by (simp add: retry_loop.simps chat_completions_create_def calls_after_backoff
        after_backoff_def backoff_trace_def)
  finally show ?thesis .
qed

lemma retry_loop_fails:
  assumes "k < 3" and "rate_limited_upto e req (calls_made w) k"
    and "backend e (calls_made w + k) req = Raises ex" and "exn_class ex \<noteq> RateLimitError"
  shows "retry_loop e req returned failed limited ended 3 d [0..<3] w =
         (failed (after_backoff req d k w) ex, after_backoff req d k w)"
proof -
  let ?wk = "w\<lparr>events := events w @ concat (replicate k [BackendCall req, Sleep d])\<rparr>"
  have "retry_loop e req returned failed limited ended 3 d [0..<3] w =
        retry_loop e req returned failed limited ended 3 d (k # [Suc k..<3]) ?wk"
    by (rule retry_loop_at [OF assms(1,2)])
  also have "\<dots> = (failed (after_backoff req d k w) ex, after_backoff req d k w)"
    using assms(3,4)
    by (simp add: retry_loop.simps chat_completions_create_def calls_after_backoff
        after_backoff_def backoff_trace_def)
  finally show ?thesis .
qed

lemma retry_loop_exhausted:
  assumes "rate_limited_upto e req (calls_made w) 2"
    and "backend e (calls_made w + 2) req = Raises ex" and "exn_class ex = RateLimitError"
  shows "retry_loop e req returned failed limited ended 3 d [0..<3] w =
         (limited (after_backoff req d 2 w) ex, after_backoff req d 2 w)"
proof -
  let ?wk = "w\<lparr>events := events w @ concat (replicate 2 [BackendCall req, Sleep d])\<rparr>"
  have k: "(2::nat) < 3" by simp
  have "retry_loop e req returned failed limited ended 3 d [0..<3] w =
        retry_loop e req returned failed limited ended 3 d (2 # [Suc 2..<3]) ?wk"
    by (rule retry_loop_at [OF k assms(1)])
  also have "\<dots> = (limited (after_backoff req d 2 w) ex, after_backoff req d 2 w)"
    using assms(2,3)
    by (simp add: retry_loop.simps chat_completions_create_def calls_after_backoff
        after_backoff_def backoff_trace_def)
  finally show ?thesis .
qed

text \<open>What the backend can do over three attempts.\<close>

lemma three_attempts_cases:
  obtains (returns) k c where "k < 3" "rate_limited_upto e req n k"
      "backend e (n + k) req = Returns c"
  | (fails) k ex where "k < 3" "rate_limited_upto e req n k"
      "backend e (n + k) req = Raises ex" "exn_class ex \<noteq> RateLimitError"
  | (exhausted) ex where "rate_limited_upto e req n 2"
      "backend e (n + 2) req = Raises ex" "exn_class ex = RateLimitError"
proof -
  have answer: "is_rate_limit r \<or> (\<exists>c. r = Returns c) \<or>
      (\<exists>ex. r = Raises ex \<and> exn_class ex \<noteq> RateLimitError)" for r
    by (cases r) (auto simp: is_rate_limit_def)
  have limited: "is_rate_limit r \<Longrightarrow> \<exists>ex. r = Raises ex \<and> exn_class ex = RateLimitError" for r
    by (cases r) (auto simp: is_rate_limit_def)
  consider "\<not> is_rate_limit (backend e n req)"
    | "is_rate_limit (backend e n req)" "\<not> is_rate_limit (backend e (n + 1) req)"
    | "is_rate_limit (backend e n req)" "is_rate_limit (backend e (n + 1) req)"
      "\<not> is_rate_limit (backend e (n + 2) req)"
    | "is_rate_limit (backend e n req)" "is_rate_limit (backend e (n + 1) req)"
      "is_rate_limit (backend e (n + 2) req)"
    by blast
  then show thesis
  proof cases
    case 1
    have "rate_limited_upto e req n 0" by (rule rate_limited_upto_0)
    with 1 answer [of "backend e n req"] returns [of 0] fails [of 0] show ?thesis
      by auto
  next
    case 2
    then have "rate_limited_upto e req n 1"
      by (simp add: upto_simps)
    with 2 answer [of "backend e (n + 1) req"] returns [of 1] fails [of 1] show ?thesis
      by auto
  next
    case 3
    then have "rate_limited_upto e req n 2"
      by (simp add: upto_simps numeral_2_eq_2)
    with 3 answer [of "backend e (n + 2) req"] returns [of 2] fails [of 2] show ?thesis
      by auto
  next
    case 4
    then have "rate_limited_upto e req n 2"
      by (simp add: upto_simps numeral_2_eq_2)
    with 4 limited [of "backend e (n + 2) req"] exhausted show ?thesis
      by auto
  qed
qed

lemma events_after_backoff: "events (after_backoff req d k w) = events w @ backoff_trace req d k"
  by (simp add: after_backoff_def)

lemma calls_made_after_backoff: "calls_made (after_backoff req d k w) = calls_made w + k + 1"
  by (simp add: after_backoff_def backoff_trace_def calls_made_append filter_backoff)

lemma length_events_after_backoff:
  "length (events (after_backoff req d k w)) = length (events w) + 2 * k + 1"
  by (simp add: after_backoff_def backoff_trace_def length_backoff)

lemma retry_loop_calls:
  "calls_made (snd (retry_loop e req returned failed limited ended 3 d [0..<3] w)) \<le>
     calls_made w + 3 \<and>
   calls_made w < calls_made (snd (retry_loop e req returned failed limited ended 3 d [0..<3] w))"
proof (cases rule: three_attempts_cases [of e req "calls_made w"])
  case (returns k c)
  then show ?thesis
    by (simp add: retry_loop_returns calls_made_after_backoff)
next
  case (fails k ex)
  then show ?thesis
    by (simp add: retry_loop_fails calls_made_after_backoff)
next
  case (exhausted ex)
  then show ?thesis
    by (simp add: retry_loop_exhausted calls_made_after_backoff)
qed

lemma rate_limited_upto_snoc:
  "rate_limited_upto e req n (Suc k) \<longleftrightarrow>
     rate_limited_upto e req n k \<and> is_rate_limit (backend e (n + k) req)"
  by (auto simp: rate_limited_upto_def less_Suc_eq)

lemma is_completion_obtains:
  assumes "is_completion r"
  obtains c where "r = Returns c"
  using assms by (cases r) (simp_all add: is_completion_def)

lemma is_fatal_obtains:
  assumes "is_fatal r"
  obtains ex where "r = Raises ex" "exn_class ex \<noteq> RateLimitError"
  using assms by (cases r) (simp_all add: is_fatal_def)

lemma is_rate_limit_obtains:
  assumes "is_rate_limit r"
  obtains ex where "r = Raises ex" "exn_class ex = RateLimitError"
  using assms by (cases r) (simp_all add: is_rate_limit_def)

lemma exhausted_obtains:
  assumes "rate_limited_upto e req n 3"
  obtains ex where "rate_limited_upto e req n 2" "backend e (n + 2) req = Raises ex"
    "exn_class ex = RateLimitError"
proof -
  from assms have "rate_limited_upto e req n 2" "is_rate_limit (backend e (n + 2) req)"
    by (simp_all add: numeral_3_eq_3 numeral_2_eq_2 rate_limited_upto_snoc)
  then show thesis
    using that by (auto elim: is_rate_limit_obtains)
qed

subsection \<open>Whether a completion comes within the budget\<close>

lemma completes_returns:
  assumes "k < 3" and "rate_limited_upto e req n k" and "backend e (n + k) req = Returns c"
  shows "completes_within_budget e req n \<longleftrightarrow> readable c"
proof
  assume "completes_within_budget e req n"
  then obtain k' c' where k': "k' < 3" "rate_limited_upto e req n k'"
    "backend e (n + k') req = Returns c'" "readable c'"
    unfolding completes_within_budget_def by blast
  have "k' = k"
  proof (rule ccontr)
    assume "k' \<noteq> k"
    then consider "k' < k" | "k < k'" by arith
    then show False
    proof cases
      case 1
      with assms(2) have "is_rate_limit (backend e (n + k') req)"
        by (simp add: rate_limited_upto_def)
      with k'(3) show False by (simp add: is_rate_limit_def)
    next
      case 2
      with k'(2) have "is_rate_limit (backend e (n + k) req)"
        by (simp add: rate_limited_upto_def)
      with assms(3) show False by (simp add: is_rate_limit_def)
    qed
  qed
  with k'(3,4) assms(3) show "readable c" by simp
next
  assume "readable c"
  with assms show "completes_within_budget e req n"
    unfolding completes_within_budget_def by blast
qed

lemma completes_raises:
  assumes "rate_limited_upto e req n k" and "backend e (n + k) req = Raises ex"
    and "exn_class ex = RateLimitError \<longrightarrow> k = 2"
  shows "\<not> completes_within_budget e req n"
proof
  assume "completes_within_budget e req n"
  then obtain k' c' where k': "k' < 3" "rate_limited_upto e req n k'"
    "backend e (n + k') req = Returns c'"
    unfolding completes_within_budget_def by blast
  consider "k' < k" | "k' = k" | "k < k'" by arith
  then show False
  proof cases
    case 1
    with assms(1) have "is_rate_limit (backend e (n + k') req)"
      by (simp add: rate_limited_upto_def)
    with k'(3) show False by (simp add: is_rate_limit_def)
  next
    case 2
    with k'(3) assms(2) show False by simp
  next
    case 3
    with k'(2) have "is_rate_limit (backend e (n + k) req)"
      by (simp add: rate_limited_upto_def)
    with assms(2,3) have "k = 2" by (simp add: is_rate_limit_def)
    with 3 k'(1) show False by simp
  qed
qed

subsection \<open>The market research loop\<close>

lemma market_research_loop:
  "market_research_attempts e u p m d as w =
   retry_loop e (market_research_request p)
     (\<lambda>w c. case market_research_result e u w c of
               Inr result \<Rightarrow> result
             | Inl ex \<Rightarrow>
                 [(''error'', PStr (''An unexpected error occurred during analysis: '' @ str ex))])
     (\<lambda>w ex. [(''error'', PStr (''An unexpected error occurred during analysis: '' @ str ex))])
     (\<lambda>w ex. [(''error'', PStr (''Analysis failed after '' @ str_nat m @
                                '' attempts due to persistent rate limiting.'')),
               (''details'', PStr (str ex))])
     (\<lambda>w. [(''error'', PStr ''Analysis failed after all retries.'')])
     m d as w"
  by (induction as arbitrary: w)
    (auto simp: retry_loop.simps split: prod.splits response.splits sum.splits)

lemma market_research_returns:
  assumes "k < 3" and "rate_limited_upto e (market_research_call idea) (calls_made w) k"
    and "backend e (calls_made w + k) (market_research_call idea) = Returns c"
  shows "analyze_market_opportunity e idea w =
     ((case market_research_result e idea (after_backoff (market_research_call idea) 61 k w) c of
         Inr result \<Rightarrow> result
       | Inl ex \<Rightarrow>
           [(''error'', PStr (''An unexpected error occurred during analysis: '' @ str ex))]),
      after_backoff (market_research_call idea) 61 k w)"
  unfolding analyze_market_opportunity_def Let_def market_research_loop
  using assms unfolding market_research_call_def
  by (rule retry_loop_returns)

lemma market_research_fails:
  assumes "k < 3" and "rate_limited_upto e (market_research_call idea) (calls_made w) k"
    and "backend e (calls_made w + k) (market_research_call idea) = Raises ex"
    and "exn_class ex \<noteq> RateLimitError"
  shows "analyze_market_opportunity e idea w =
     ([(''error'', PStr (''An unexpected error occurred during analysis: '' @ str ex))],
      after_backoff (market_research_call idea) 61 k w)"
  unfolding analyze_market_opportunity_def Let_def market_research_loop
  using assms unfolding market_research_call_def
  by (rule retry_loop_fails)

lemma market_research_exhausted:
  assumes "rate_limited_upto e (market_research_call idea) (calls_made w) 2"
    and "backend e (calls_made w + 2) (market_research_call idea) = Raises ex"
    and "exn_class ex = RateLimitError"
  shows "analyze_market_opportunity e idea w =
     ([(''error'', PStr (''Analysis failed after '' @ str_nat 3 @
                        '' attempts due to persistent rate limiting.'')),
       (''details'', PStr (str ex))],
      after_backoff (market_research_call idea) 61 2 w)"
  unfolding analyze_market_opportunity_def Let_def market_research_loop
  using assms unfolding market_research_call_def
  by (rule retry_loop_exhausted)

lemma market_research_trace_returns:
  assumes "k < 3"
    and "rate_limited_upto e (market_research_call idea) (calls_made w) k"
    and "is_completion (backend e (calls_made w + k) (market_research_call idea))"
  shows "events (snd (analyze_market_opportunity e idea w)) =
         events w @ backoff_trace (market_research_call idea) 61 k"
  using assms(3)
  by (rule is_completion_obtains)
    (simp add: market_research_returns [OF assms(1,2)] events_after_backoff)

lemma market_research_trace_fatal:
  assumes "k < 3"
    and "rate_limited_upto e (market_research_call idea) (calls_made w) k"
    and "is_fatal (backend e (calls_made w + k) (market_research_call idea))"
  shows "events (snd (analyze_market_opportunity e idea w)) =
         events w @ backoff_trace (market_research_call idea) 61 k \<and>
         has_key (fst (analyze_market_opportunity e idea w)) ''error''"
  using assms(3)
  by (rule is_fatal_obtains)
    (simp add: market_research_fails [OF assms(1,2)] events_after_backoff has_key_def)

lemma market_research_trace_exhausted:
  assumes "rate_limited_upto e (market_research_call idea) (calls_made w) 3"
  shows "events (snd (analyze_market_opportunity e idea w)) =
         events w @ [BackendCall (market_research_call idea), Sleep 61,
                     BackendCall (market_research_call idea), Sleep 61,
                     BackendCall (market_research_call idea)]"
  using assms
  by (rule exhausted_obtains)
    (simp add: market_research_exhausted events_after_backoff backoff_trace_def numeral_2_eq_2)

lemma market_research_calls:
  "calls_made (snd (analyze_market_opportunity e idea w)) \<le> calls_made w + 3 \<and>
   calls_made w < calls_made (snd (analyze_market_opportunity e idea w))"
  unfolding analyze_market_opportunity_def Let_def market_research_loop
  by (rule retry_loop_calls)

lemma market_research_result_keys:
  "case market_research_result e u w c of
     Inr result \<Rightarrow> readable c \<and> has_key result ''market_research_analysis'' \<and>
       \<not> has_key result ''error''
   | Inl ex \<Rightarrow> \<not> readable c"
  by (auto simp: market_research_result_def readable_def has_key_def Let_def
      split: list.splits attr.splits)

lemma market_research_outcome:
  "(has_key (fst (analyze_market_opportunity e idea w)) ''error'' \<longleftrightarrow>
      \<not> completes_within_budget e (market_research_call idea) (calls_made w)) \<and>
   (has_key (fst (analyze_market_opportunity e idea w)) ''market_research_analysis'' \<longleftrightarrow>
      completes_within_budget e (market_research_call idea) (calls_made w))"
proof (cases rule: three_attempts_cases [of e "market_research_call idea" "calls_made w"])
  case (returns k c)
  let ?w = "after_backoff (market_research_call idea) 61 k w"
  from market_research_result_keys [where e = e and u = idea and w = ?w and c = c]
  show ?thesis
    by (cases "market_research_result e idea ?w c")
      (simp_all add: market_research_returns [OF returns] completes_returns [OF returns]
        has_key_def)
next
  case (fails k ex)
  from fails(2,3,4) have "\<not> completes_within_budget e (market_research_call idea) (calls_made w)"
    by (intro completes_raises) auto
  then show ?thesis
    by (simp add: market_research_fails [OF fails] has_key_def)
next
  case (exhausted ex)
  then have "\<not> completes_within_budget e (market_research_call idea) (calls_made w)"
    by (intro completes_raises) auto
  then show ?thesis
    by (simp add: market_research_exhausted [OF exhausted] has_key_def)
qed

lemma market_research_success:
  assumes "k < 3"
    and "rate_limited_upto e (market_research_call idea) (calls_made w) k"
    and "backend e (calls_made w + k) (market_research_call idea) = Returns c"
    and "choices c = m # ms" and "usage c \<noteq> IsNone"
  shows "fst (analyze_market_opportunity e idea w) =
     [(''user_idea'', PStr idea),
      (''analysis_timestamp'', PStr (clock e (length (events w) + 2 * k + 1))),
      (''model_used'', PStr ''groq/compound''),
      (''market_research_analysis'', text_value (content m)),
      (''web_search_data'',
       (case executed_tools m of Absent \<Rightarrow> PList [] | IsNone \<Rightarrow> PNone | Has ts \<Rightarrow> PList ts)),
      (''reasoning_process'',
       (case reasoning m of Absent \<Rightarrow> PStr [] | IsNone \<Rightarrow> PNone | Has r \<Rightarrow> PStr r)),
      (''analysis_metadata'',
       PDict
         [(''total_tokens'', (case usage c of Has n \<Rightarrow> PInt n | _ \<Rightarrow> PNone)),
          (''analysis_depth'', PStr ''comprehensive_with_real_web_search''),
          (''web_searches_performed'',
           PInt (case executed_tools m of Has ts \<Rightarrow> int (length ts) | _ \<Rightarrow> 0))])]"
  using assms(4,5)
  by (simp add: market_research_returns [OF assms(1-3)] market_research_result_def
      datetime_now_isoformat_def length_events_after_backoff split: attr.splits)

subsection \<open>The web research loop\<close>

lemma web_research_loop:
  "web_research_attempts e p m d as w =
   retry_loop e (web_research_request p)
     (\<lambda>w c. case web_research_result e w c of
               Inr result \<Rightarrow> result
             | Inl ex \<Rightarrow>
                 [(''error'', PStr (''An unexpected error occurred during web research: '' @ str ex)),
                  (''research_data'', PStr ''Not available.'')])
     (\<lambda>w ex. [(''error'', PStr (''An unexpected error occurred during web research: '' @ str ex)),
               (''research_data'', PStr ''Not available.'')])
     (\<lambda>w ex. [(''error'', PStr (''Web research failed after '' @ str_nat m @
                                '' attempts due to persistent rate limiting.'')),
               (''details'', PStr (str ex)),
               (''research_data'', PStr ''Not available.'')])
     (\<lambda>w. [(''error'', PStr ''Web research failed after all retries.''),
           (''research_data'', PStr ''Not available.'')])
     m d as w"
  by (induction as arbitrary: w)
    (auto simp: retry_loop.simps split: prod.splits response.splits sum.splits)

lemma web_research_returns:
  assumes "k < 3" and "rate_limited_upto e (web_research_call idea report) (calls_made w) k"
    and "backend e (calls_made w + k) (web_research_call idea report) = Returns c"
  shows "research_execution_strategies e idea report w =
     ((case web_research_result e (after_backoff (web_research_call idea report) 61 k w) c of
         Inr result \<Rightarrow> result
       | Inl ex \<Rightarrow>
           [(''error'', PStr (''An unexpected error occurred during web research: '' @ str ex)),
            (''research_data'', PStr ''Not available.'')]),
      after_backoff (web_research_call idea report) 61 k w)"
  unfolding research_execution_strategies_def Let_def web_research_loop
  using assms unfolding web_research_call_def
  by (rule retry_loop_returns)

lemma web_research_fails:
  assumes "k < 3" and "rate_limited_upto e (web_research_call idea report) (calls_made w) k"
    and "backend e (calls_made w + k) (web_research_call idea report) = Raises ex"
    and "exn_class ex \<noteq> RateLimitError"
  shows "research_execution_strategies e idea report w =
     ([(''error'', PStr (''An unexpected error occurred during web research: '' @ str ex)),
       (''research_data'', PStr ''Not available.'')],
      after_backoff (web_research_call idea report) 61 k w)"
  unfolding research_execution_strategies_def Let_def web_research_loop
  using assms unfolding web_research_call_def
  by (rule retry_loop_fails)

lemma web_research_exhausted:
  assumes "rate_limited_upto e (web_research_call idea report) (calls_made w) 2"
    and "backend e (calls_made w + 2) (web_research_call idea report) = Raises ex"
    and "exn_class ex = RateLimitError"
  shows "research_execution_strategies e idea report w =
     ([(''error'', PStr (''Web research failed after '' @ str_nat 3 @
                        '' attempts due to persistent rate limiting.'')),
       (''details'', PStr (str ex)),
       (''research_data'', PStr ''Not available.'')],
      after_backoff (web_research_call idea report) 61 2 w)"
  unfolding research_execution_strategies_def Let_def web_research_loop
  using assms unfolding web_research_call_def
  by (rule retry_loop_exhausted)


lemma web_research_trace_fatal:
  assumes "k < 3"
    and "rate_limited_upto e (web_research_call idea report) (calls_made w) k"
    and "is_fatal (backend e (calls_made w + k) (web_research_call idea report))"
  shows "events (snd (research_execution_strategies e idea report w)) =
         events w @ backoff_trace (web_research_call idea report) 61 k \<and>
         has_key (fst (research_execution_strategies e idea report w)) ''error''"
  using assms(3)
  by (rule is_fatal_obtains)
    (simp add: web_research_fails [OF assms(1,2)] events_after_backoff has_key_def)

lemma web_research_trace_exhausted:
  assumes "rate_limited_upto e (web_research_call idea report) (calls_made w) 3"
  shows "events (snd (research_execution_strategies e idea report w)) =
         events w @ [BackendCall (web_research_call idea report), Sleep 61,
                     BackendCall (web_research_call idea report), Sleep 61,
                     BackendCall (web_research_call idea report)]"
  using assms
  by (rule exhausted_obtains)
    (simp add: web_research_exhausted events_after_backoff backoff_trace_def numeral_2_eq_2)

lemma web_research_calls:
  "calls_made (snd (research_execution_strategies e idea report w)) \<le> calls_made w + 3 \<and>
   calls_made w < calls_made (snd (research_execution_strategies e idea report w))"
  unfolding research_execution_strategies_def Let_def web_research_loop
  by (rule retry_loop_calls)

lemma web_research_success:
  assumes "k < 3"
    and "rate_limited_upto e (web_research_call idea report) (calls_made w) k"
    and "backend e (calls_made w + k) (web_research_call idea report) = Returns c"
    and "choices c = m # ms"
  shows "fst (research_execution_strategies e idea report w) =
     [(''research_data'', text_value (content m)),
      (''timestamp'', PStr (clock e (length (events w) + 2 * k + 1)))]"
  using assms(4)
  by (simp add: web_research_returns [OF assms(1-3)] web_research_result_def
      datetime_now_isoformat_def length_events_after_backoff)

lemma web_research_attempts_data:
  "(dict_get (fst (web_research_attempts e p m d as w)) ''research_data'' (PStr []) = PNone \<or>
    (\<exists>s. dict_get (fst (web_research_attempts e p m d as w)) ''research_data'' (PStr []) =
       PStr s)) \<and>
   (has_key (fst (web_research_attempts e p m d as w)) ''error'' \<longrightarrow>
      dict_get (fst (web_research_attempts e p m d as w)) ''research_data'' (PStr []) =
        PStr ''Not available.'')"
proof (induction as arbitrary: w)
  case Nil
  show ?case by (simp add: dict_get_def has_key_def)
next
  case (Cons a as)
  let ?req = "web_research_request p"
  let ?w1 = "w\<lparr>events := events w @ [BackendCall ?req]\<rparr>"
  show ?case
  proof (cases "backend e (calls_made w) ?req")
    case (Returns c)
    then show ?thesis
      by (cases "choices c")
        (simp_all add: chat_completions_create_def web_research_result_def dict_get_def
          has_key_def text_value_def split: option.splits)
  next
    case (Raises ex)
    show ?thesis
    proof (cases "exn_class ex = RateLimitError \<and> a < m - 1")
      case True
      with Raises have "web_research_attempts e p m d (a # as) w =
          web_research_attempts e p m d as (asyncio_sleep d ?w1)"
        by (simp add: chat_completions_create_def)
      with Cons.IH [of "asyncio_sleep d ?w1"] show ?thesis by simp
    next
      case False
      with Raises show ?thesis
        by (auto simp: chat_completions_create_def dict_get_def has_key_def)
    qed
  qed
qed

lemma web_research_data:
  "(dict_get (fst (research_execution_strategies e idea report w)) ''research_data'' (PStr []) =
      PNone \<or>
    (\<exists>s. dict_get (fst (research_execution_strategies e idea report w)) ''research_data''
       (PStr []) = PStr s)) \<and>
   (has_key (fst (research_execution_strategies e idea report w)) ''error'' \<longrightarrow>
      dict_get (fst (research_execution_strategies e idea report w)) ''research_data'' (PStr []) =
        PStr ''Not available.'')"
  unfolding research_execution_strategies_def Let_def
  by (rule web_research_attempts_data)

lemma generate_execution_plan_given:
  assumes "idea \<noteq> []" "report \<noteq> []"
    and "dict_get (fst (research_execution_strategies e idea report w)) ''research_data''
           (PStr []) = PStr s"
  shows "events (snd (generate_execution_plan e (Some idea) (Some report) w)) =
           events (snd (research_execution_strategies e idea report w)) @
           [BackendCall (planning_request (get_execution_planning_prompt idea report s))] \<and>
         (\<exists>d. fst (generate_execution_plan e (Some idea) (Some report) w) = Inr d)"
  using assms
  by (auto simp: generate_execution_plan_def or_input_def chat_completions_create_def Let_def
      split: prod.splits response.splits list.splits)

lemma generate_execution_plan_none:
  assumes "idea \<noteq> []" "report \<noteq> []"
    and "dict_get (fst (research_execution_strategies e idea report w)) ''research_data''
           (PStr []) = PNone"
  shows "generate_execution_plan e (Some idea) (Some report) w =
           (Inl (Exn TypeError none_not_subscriptable),
            snd (research_execution_strategies e idea report w))"
  using assms
  by (auto simp: generate_execution_plan_def or_input_def Let_def split: prod.splits)

lemma generate_execution_plan_success:
  assumes "idea \<noteq> []" "report \<noteq> []"
    and "dict_get (fst (research_execution_strategies e idea report w)) ''research_data''
           (PStr []) = PStr s"
    and "backend e (calls_made (snd (research_execution_strategies e idea report w)))
           (planning_request (get_execution_planning_prompt idea report s)) = Returns c"
    and "choices c = m # ms"
  shows "fst (generate_execution_plan e (Some idea) (Some report) w) =
     Inr [(''user_idea'', PStr idea),
          (''market_report'', PStr report),
          (''web_research_summary'', PStr s),
          (''execution_plan'', text_value (content m)),
          (''generation_timestamp'',
           PStr (clock e (length (events (snd (research_execution_strategies e idea report w)))
                            + 1)))]"
  using assms
  by (auto simp: generate_execution_plan_def or_input_def chat_completions_create_def Let_def
      datetime_now_isoformat_def split: prod.splits)

subsection \<open>The strategic analysis\<close>

lemma events_input: "events (snd (input w)) = events w"
  by (simp add: input_def split: list.splits)

lemma events_or_input: "events (snd (or_input x w)) = events w"
  by (simp add: or_input_def events_input split: option.splits)

lemma events_ask_for_report: "events (snd (ask_for_report fb e w)) = events w"
  by (auto simp: ask_for_report_def input_def Let_def
      split: list.splits prod.splits sum.splits file_read.splits)

lemma events_or_ask: "events (snd (or_ask_for_report fb e x w)) = events w"
  by (simp add: or_ask_for_report_def events_ask_for_report split: option.splits)

lemma paste_lines_raises: "paste_lines acc ls = (Inl ex, rest) \<Longrightarrow> exn_class ex = EOFError"
  by (induction acc ls rule: paste_lines.induct) (auto split: if_splits)

lemma input_raises: "input w = (Inl ex, w') \<Longrightarrow> exn_class ex = EOFError"
  by (auto simp: input_def split: list.splits)

lemma or_input_raises: "or_input x w = (Inl ex, w') \<Longrightarrow> exn_class ex = EOFError"
  by (auto simp: or_input_def dest: input_raises split: option.splits if_splits)

lemma ask_for_report_raises: "ask_for_report fb e w = (Inl ex, w') \<Longrightarrow> exn_class ex = EOFError"
  by (auto simp: ask_for_report_def Let_def
      dest: input_raises paste_lines_raises
      split: prod.splits sum.splits if_splits file_read.splits)

lemma or_ask_raises: "or_ask_for_report fb e x w = (Inl ex, w') \<Longrightarrow> exn_class ex = EOFError"
  by (auto simp: or_ask_for_report_def dest: ask_for_report_raises split: option.splits if_splits)

lemma calls_made_cong: "events w' = events w \<Longrightarrow> calls_made w' = calls_made w"
  by (simp add: calls_made_def)

lemma analyze_strategy_shape:
  "(\<exists>ex w'. analyze_strategy e a b c w = (Inl ex, w') \<and> events w' = events w \<and>
      exn_class ex = EOFError) \<or>
   (\<exists>u mr ep w3. events w3 = events w \<and>
      analyze_strategy e a b c w =
        (Inr (fst (strategy_attempts e u mr ep (get_strategic_analysis_prompt u mr ep) 3 61
                     [0..<3] w3)),
         snd (strategy_attempts e u mr ep (get_strategic_analysis_prompt u mr ep) 3 61
                [0..<3] w3)))"
proof -
  obtain r1 w1 where o1: "or_input a w = (r1, w1)"
    by (cases "or_input a w")
  have e1: "events w1 = events w"
    using events_or_input [of a w] o1 by simp
  show ?thesis
  proof (cases r1)
    case (Inl ex)
    with o1 e1 or_input_raises [of a w ex w1] show ?thesis
      by (simp add: analyze_strategy_def)
  next
    case u: (Inr u)
    obtain r2 w2 where o2: "or_ask_for_report ''Market research not available'' e b w1 = (r2, w2)"
      by (cases "or_ask_for_report ''Market research not available'' e b w1")
    have e2: "events w2 = events w"
      using events_or_ask [of "''Market research not available''" e b w1] o2 e1 by simp
    show ?thesis
    proof (cases r2)
      case (Inl ex)
      with o1 u o2 e2 or_ask_raises [of _ e b w1 ex w2] show ?thesis
        by (simp add: analyze_strategy_def)
    next
      case mr: (Inr mr)
      obtain r3 w3 where o3: "or_ask_for_report ''Execution plan not available'' e c w2 = (r3, w3)"
        by (cases "or_ask_for_report ''Execution plan not available'' e c w2")
      have e3: "events w3 = events w"
        using events_or_ask [of "''Execution plan not available''" e c w2] o3 e2 by simp
      show ?thesis
      proof (cases r3)
        case (Inl ex)
        with o1 u o2 mr o3 e3 or_ask_raises [of _ e c w2 ex w3] show ?thesis
          by (simp add: analyze_strategy_def)
      next
        case ep: (Inr ep)
        have "analyze_strategy e a b c w =
          (Inr (fst (strategy_attempts e u mr ep (get_strategic_analysis_prompt u mr ep) 3 61
                     [0..<3] w3)),
           snd (strategy_attempts e u mr ep (get_strategic_analysis_prompt u mr ep) 3 61
                [0..<3] w3))"
          using o1 u o2 mr o3 ep
          by (simp add: analyze_strategy_def Let_def split: prod.splits
              del: strategy_attempts.simps)
        with e3 show ?thesis by blast
      qed
    qed
  qed
qed

lemma strategy_loop:
  "strategy_attempts e u mr ep p m d as w =
   retry_loop e (strategy_request p)
     (\<lambda>w c. case strategy_result e u mr ep w c of
               Inr result \<Rightarrow> PDict result
             | Inl ex \<Rightarrow> strategy_failure e (''Strategic analysis failed: '' @ str ex) u w)
     (\<lambda>w ex. strategy_failure e (''Strategic analysis failed: '' @ str ex) u w)
     (\<lambda>w ex. strategy_failure e (''Strategic analysis failed after multiple retries: '' @ str ex)
                u w)
     (\<lambda>w. PNone)
     m d as w"
  by (induction as arbitrary: w)
    (auto simp: retry_loop.simps split: prod.splits response.splits sum.splits)

lemma strategy_attempts_calls:
  "calls_made (snd (strategy_attempts e u mr ep p 3 d [0..<3] w)) \<le> calls_made w + 3 \<and>
   calls_made w < calls_made (snd (strategy_attempts e u mr ep p 3 d [0..<3] w))"
  unfolding strategy_loop by (rule retry_loop_calls)

lemma strategy_calls:
  "calls_made (snd (analyze_strategy e a b c w)) \<le> calls_made w + 3"
  using analyze_strategy_shape [of e a b c w]
proof (elim disjE exE conjE)
  fix ex w'
  assume "analyze_strategy e a b c w = (Inl ex, w')" "events w' = events w"
  then show ?thesis by (simp add: calls_made_cong [of w' w])
next
  fix u mr ep w3
  assume "events w3 = events w"
    and "analyze_strategy e a b c w =
        (Inr (fst (strategy_attempts e u mr ep (get_strategic_analysis_prompt u mr ep) 3 61
                     [0..<3] w3)),
         snd (strategy_attempts e u mr ep (get_strategic_analysis_prompt u mr ep) 3 61
                [0..<3] w3))"
  then show ?thesis
    using strategy_attempts_calls [of e u mr ep "get_strategic_analysis_prompt u mr ep" 61 w3]
    by (simp add: calls_made_cong [of w3 w] del: strategy_attempts.simps)
qed

lemma analyze_strategy_given:
  assumes "idea \<noteq> []" "mr \<noteq> []" "ep \<noteq> []"
  shows "analyze_strategy e (Some idea) (Some mr) (Some ep) w =
     (Inr (fst (strategy_attempts e idea mr ep (get_strategic_analysis_prompt idea mr ep) 3 61
                  [0..<3] w)),
      snd (strategy_attempts e idea mr ep (get_strategic_analysis_prompt idea mr ep) 3 61
             [0..<3] w))"
  using assms
  by (simp add: analyze_strategy_def or_input_def or_ask_for_report_def Let_def
      split: prod.splits del: strategy_attempts.simps)


lemma strategy_success:
  assumes "k < 3"
    and "rate_limited_upto e (strategy_call idea mr ep) (calls_made w) k"
    and "backend e (calls_made w + k) (strategy_call idea mr ep) = Returns c"
    and "choices c = m # ms" and "usage c \<noteq> IsNone"
  shows "fst (strategy_attempts e idea mr ep (get_strategic_analysis_prompt idea mr ep)
                3 61 [0..<3] w) =
     PDict
       [(''user_idea'', PStr idea),
        (''market_report_summary'', PStr (summary_500 mr)),
        (''execution_plan_summary'', PStr (summary_500 ep)),
        (''strategic_analysis'', text_value (content m)),
        (''analysis_timestamp'', PStr (clock e (length (events w) + 2 * k + 1))),
        (''model_used'', PStr ''openai/gpt-oss-120b''),
        (''analysis_type'', PStr ''comprehensive_strategic_analysis''),
        (''analysis_metadata'',
         PDict
           [(''total_tokens'', (case usage c of Has n \<Rightarrow> PInt n | _ \<Rightarrow> PNone)),
            (''analysis_depth'', PStr ''comprehensive_strategic_differentiation''),
            (''analysis_framework'', PStr ''positive_negative_differentiation_analysis'')])]"
  using assms
  unfolding strategy_loop strategy_call_def
  by (simp add: retry_loop_returns strategy_result_def datetime_now_isoformat_def
      length_events_after_backoff split: attr.splits)

lemma strategy_trace_fatal:
  assumes "k < 3"
    and "rate_limited_upto e (strategy_call idea mr ep) (calls_made w) k"
    and "is_fatal (backend e (calls_made w + k) (strategy_call idea mr ep))"
  shows "events (snd (strategy_attempts e idea mr ep (get_strategic_analysis_prompt idea mr ep)
                        3 61 [0..<3] w)) =
         events w @ backoff_trace (strategy_call idea mr ep) 61 k \<and>
         (\<exists>d. fst (strategy_attempts e idea mr ep (get_strategic_analysis_prompt idea mr ep)
                        3 61 [0..<3] w) = PDict d \<and> has_key d ''error'')"
  using assms(3)
proof (rule is_fatal_obtains)
  fix ex assume "backend e (calls_made w + k) (strategy_call idea mr ep) = Raises ex"
    "exn_class ex \<noteq> RateLimitError"
  with assms(1,2) show ?thesis
    unfolding strategy_loop strategy_call_def
    by (simp add: retry_loop_fails events_after_backoff strategy_failure_def has_key_def)
qed

lemma strategy_trace_exhausted:
  assumes "rate_limited_upto e (strategy_call idea mr ep) (calls_made w) 3"
  shows "events (snd (strategy_attempts e idea mr ep (get_strategic_analysis_prompt idea mr ep)
                        3 61 [0..<3] w)) =
         events w @ [BackendCall (strategy_call idea mr ep), Sleep 61,
                     BackendCall (strategy_call idea mr ep), Sleep 61,
                     BackendCall (strategy_call idea mr ep)]"
  using assms
proof (rule exhausted_obtains)
  fix ex assume "rate_limited_upto e (strategy_call idea mr ep) (calls_made w) 2"
    "backend e (calls_made w + 2) (strategy_call idea mr ep) = Raises ex"
    "exn_class ex = RateLimitError"
  then show ?thesis
    unfolding strategy_loop strategy_call_def
    by (simp add: retry_loop_exhausted events_after_backoff backoff_trace_def numeral_2_eq_2)
qed



lemma transient_is_fatal: "is_transient r \<Longrightarrow> is_fatal r"
  by (auto simp: is_transient_def is_fatal_def split: response.splits)

subsection \<open>The dashboard's test and the slice\<close>

lemma pressed_long:
  "20 < length idea \<Longrightarrow>
   snd (generate_market_research_pressed e idea w) = snd (analyze_market_opportunity e idea w)"
  by (auto simp: generate_market_research_pressed_def run_market_research_def split: prod.splits)

lemma pressed_short:
  "length idea \<le> 20 \<Longrightarrow> generate_market_research_pressed e idea w = (None, w)"
  by (simp add: generate_market_research_pressed_def)

lemma slice_to_take: "slice_to n s = take n s"
  unfolding slice_to_def by (rule nth_equalityI) auto

text \<open>
  What a builder does with a prior output: the prompt is fixed text around the first
  characters of the output, and the fixed text does not depend on the output.
\<close>

lemma pin_text: "r = p @ t \<Longrightarrow> l @ r = (l @ p) @ t"
  by simp

lemma pin_slice: "r = t \<Longrightarrow> x @ r = [] @ x @ t"
  by simp

lemma web_research_prompt_prefix:
  "\<exists>before after. \<forall>report.
     get_web_research_prompt idea report = before @ take 1500 report @ after"
  unfolding get_web_research_prompt_def slice_to_take
  apply (intro exI allI)
  apply (rule pin_text)+
  apply (rule pin_slice)
  apply (rule refl)
  done

lemma execution_planning_prompt_prefix:
  "\<exists>before between after. \<forall>report research.
     get_execution_planning_prompt idea report research =
       before @ take 1500 report @ between @ take 2000 research @ after"
  unfolding get_execution_planning_prompt_def slice_to_take
  apply (intro exI allI)
  apply (rule pin_text)+
  apply (rule pin_slice)
  apply (rule pin_text)+
  apply (rule pin_slice)
  apply (rule refl)
  done

lemma strategic_analysis_prompt_prefix:
  "\<exists>before between after. \<forall>report plan.
     get_strategic_analysis_prompt idea report plan =
       before @ take 2500 report @ between @ take 2500 plan @ after"
  unfolding get_strategic_analysis_prompt_def slice_to_take
  apply (intro exI allI)
  apply (rule pin_text)+
  apply (rule pin_slice)
  apply (rule pin_text)+
  apply (rule pin_slice)
  apply (rule refl)
  done

lemma long_text_length: "length long_text = 3001"
  by (simp add: long_text_def)

lemma long_text_slice: "slice_to 3000 long_text = replicate 3000 (CHR ''x'')"
  by (simp add: long_text_def slice_to_take)

subsection \<open>The calls that are sent once\<close>


lemma char_of_51: "char_of (51::nat) = CHR ''3''"
  by code_simp

lemma swot_events:
  "events (snd (quick_swot_analysis e idea w)) =
   events w @ [BackendCall (swot_request (swot_prompt idea))]"
  by (simp add: quick_swot_analysis_def chat_completions_create_def
      split: response.splits list.splits)

lemma swot_success:
  assumes "backend e (calls_made w) (swot_request (swot_prompt idea)) = Returns c"
    and "choices c = m # ms"
  shows "fst (quick_swot_analysis e idea w) = text_value (content m)"
  using assms by (simp add: quick_swot_analysis_def chat_completions_create_def)

lemma chat_loop_events:
  "events (chat_loop e mr ep sa lines evs) =
   evs @ map (\<lambda>line. BackendCall (chat_request (build_prompt mr ep sa (strip line))))
           (takeWhile (\<lambda>line. \<not> leaves_chat line) lines)"
  by (induction lines arbitrary: evs)
    (auto simp: leaves_chat_def Let_def chat_completions_create_def)

lemma chatbot_main_events:
  assumes "fst (chatbot_main e w) = Inr ()"
  shows "\<exists>mr ep sa. load_report e ''market_research_analysis.md'' = Inr mr \<and>
      load_report e ''execution_plan.md'' = Inr ep \<and>
      load_report e ''strategic_analysis.md'' = Inr sa \<and>
      events (snd (chatbot_main e w)) =
        events w @ map (\<lambda>line. BackendCall (chat_request (build_prompt mr ep sa (strip line))))
                     (takeWhile (\<lambda>line. \<not> leaves_chat line) (stdin w))"
  using assms
  by (auto simp: chatbot_main_def chat_loop_events split: sum.splits)

lemma sample_question:
  "\<not> leaves_chat '' Who buys it? ''" "leaves_chat ''QUIT''"
  "strip '' Who buys it? '' = ''Who buys it?''"
  by code_simp+

subsection \<open>The sample surroundings\<close>

lemmas run_defs = chat_completions_create_def asyncio_sleep_def calls_made_def Let_def

lemma range3: "[0..<3] = [0, 1, 2::nat]"
  by (simp add: upt_rec)

lemma ex_less3: "(\<exists>k<3. P k) \<longleftrightarrow> P 0 \<or> P (Suc 0) \<or> P (Suc (Suc 0))"
proof
  assume "\<exists>k<3. P k"
  then obtain k where "k < 3" "P k" by blast
  with less3 [of k] show "P 0 \<or> P (Suc 0) \<or> P (Suc (Suc 0))" by auto
next
  assume "P 0 \<or> P (Suc 0) \<or> P (Suc (Suc 0))"
  then show "\<exists>k<3. P k"
    by (metis less_Suc_eq numeral_3_eq_3 zero_less_Suc)
qed

lemma fresh_calls: "calls_made fresh_world = 0"
  by (simp add: calls_made_def fresh_world_def)

lemma fresh_events: "events fresh_world = []"
  by (simp add: fresh_world_def)

lemma backend_scripted:
  "backend (scripted_env rs) n req = (if n < length rs then rs ! n else Returns sample_completion)"
  by (simp add: scripted_env_def)

section \<open>The claims\<close>

text \<open>
  Claim C1. A stage call never makes more than three backend attempts. When an attempt
  raises an error that is not a rate limit, that attempt is the last: after \<open>k\<close> rate
  limits the trace is the \<open>k\<close> delayed attempts and the failing one, and the result carries
  the key \<^verbatim>\<open>error\<close>. With \<open>k = 0\<close> the call makes exactly one attempt. This holds for
  each of the three stage calls: the market research, the web research and the strategic
  analysis.
\<close>

theorem attempts_bounded_fatal_not_retried:
  "calls_made (snd (analyze_market_opportunity e idea w)) \<le> calls_made w + 3 \<and>
   calls_made (snd (research_execution_strategies e idea report w)) \<le> calls_made w + 3 \<and>
   calls_made (snd (analyze_strategy e a b c w)) \<le> calls_made w + 3 \<and>
   (k < 3 \<and> rate_limited_upto e (market_research_call idea) (calls_made w) k \<and>
    is_fatal (backend e (calls_made w + k) (market_research_call idea)) \<longrightarrow>
      events (snd (analyze_market_opportunity e idea w)) =
        events w @ backoff_trace (market_research_call idea) 61 k \<and>
      has_key (fst (analyze_market_opportunity e idea w)) ''error'') \<and>
   (k < 3 \<and> rate_limited_upto e (web_research_call idea report) (calls_made w) k \<and>
    is_fatal (backend e (calls_made w + k) (web_research_call idea report)) \<longrightarrow>
      events (snd (research_execution_strategies e idea report w)) =
        events w @ backoff_trace (web_research_call idea report) 61 k \<and>
      has_key (fst (research_execution_strategies e idea report w)) ''error'') \<and>
   (k < 3 \<and> idea \<noteq> [] \<and> report \<noteq> [] \<and> plan \<noteq> [] \<and>
    rate_limited_upto e (strategy_call idea report plan) (calls_made w) k \<and>
    is_fatal (backend e (calls_made w + k) (strategy_call idea report plan)) \<longrightarrow>
      events (snd (analyze_strategy e (Some idea) (Some report) (Some plan) w)) =
        events w @ backoff_trace (strategy_call idea report plan) 61 k \<and>
      (\<exists>d. fst (analyze_strategy e (Some idea) (Some report) (Some plan) w) = Inr (PDict d) \<and>
           has_key d ''error''))"
proof (intro conjI impI)
  show "calls_made (snd (analyze_market_opportunity e idea w)) \<le> calls_made w + 3"
    using market_research_calls [of e idea w] by blast
next
  show "calls_made (snd (research_execution_strategies e idea report w)) \<le> calls_made w + 3"
    using web_research_calls [of e idea report w] by blast
next
  show "calls_made (snd (analyze_strategy e a b c w)) \<le> calls_made w + 3"
    by (rule strategy_calls)
next
  assume "k < 3 \<and> rate_limited_upto e (market_research_call idea) (calls_made w) k \<and>
    is_fatal (backend e (calls_made w + k) (market_research_call idea))"
  with market_research_trace_fatal [of k e idea w]
  show "events (snd (analyze_market_opportunity e idea w)) =
        events w @ backoff_trace (market_research_call idea) 61 k"
    and "has_key (fst (analyze_market_opportunity e idea w)) ''error''"
    by blast+
next
  assume "k < 3 \<and> rate_limited_upto e (web_research_call idea report) (calls_made w) k \<and>
    is_fatal (backend e (calls_made w + k) (web_research_call idea report))"
  with web_research_trace_fatal [of k e idea report w]
  show "events (snd (research_execution_strategies e idea report w)) =
        events w @ backoff_trace (web_research_call idea report) 61 k"
    and "has_key (fst (research_execution_strategies e idea report w)) ''error''"
    by blast+
next
  assume h: "k < 3 \<and> idea \<noteq> [] \<and> report \<noteq> [] \<and> plan \<noteq> [] \<and>
    rate_limited_upto e (strategy_call idea report plan) (calls_made w) k \<and>
    is_fatal (backend e (calls_made w + k) (strategy_call idea report plan))"
  then have given: "analyze_strategy e (Some idea) (Some report) (Some plan) w =
     (Inr (fst (strategy_attempts e idea report plan
                  (get_strategic_analysis_prompt idea report plan) 3 61 [0..<3] w)),
      snd (strategy_attempts e idea report plan
             (get_strategic_analysis_prompt idea report plan) 3 61 [0..<3] w))"
    by (intro analyze_strategy_given) simp_all
  from h strategy_trace_fatal [of k e idea report plan w]
  show "events (snd (analyze_strategy e (Some idea) (Some report) (Some plan) w)) =
        events w @ backoff_trace (strategy_call idea report plan) 61 k"
    and "\<exists>d. fst (analyze_strategy e (Some idea) (Some report) (Some plan) w) = Inr (PDict d) \<and>
           has_key d ''error''"
    unfolding given by simp_all
qed

theorem attempts_bounded_fatal_not_retried_witness:
  "rate_limited_upto (scripted_env [rate_limit_429, Raises (Exn APIStatusError ''401'')])
     (market_research_call ''solar kiosks'') (calls_made fresh_world) 1 \<and>
   is_fatal (backend (scripted_env [rate_limit_429, Raises (Exn APIStatusError ''401'')])
     (calls_made fresh_world + 1) (market_research_call ''solar kiosks'')) \<and>
   events (snd (analyze_market_opportunity
      (scripted_env [rate_limit_429, Raises (Exn APIStatusError ''401'')])
      ''solar kiosks'' fresh_world)) =
     [BackendCall (market_research_call ''solar kiosks''), Sleep 61,
      BackendCall (market_research_call ''solar kiosks'')] \<and>
   has_key (fst (analyze_market_opportunity
      (scripted_env [rate_limit_429, Raises (Exn APIStatusError ''401'')])
      ''solar kiosks'' fresh_world)) ''error'' \<and>
   rate_limited_upto (scripted_env [Raises (Exn APIStatusError ''401'')])
     (strategy_call ''solar kiosks'' ''a growing market'' ''open ten kiosks'')
     (calls_made fresh_world) 0 \<and>
   is_fatal (backend (scripted_env [Raises (Exn APIStatusError ''401'')])
     (calls_made fresh_world + 0)
     (strategy_call ''solar kiosks'' ''a growing market'' ''open ten kiosks'')) \<and>
   events (snd (analyze_strategy (scripted_env [Raises (Exn APIStatusError ''401'')])
      (Some ''solar kiosks'') (Some ''a growing market'') (Some ''open ten kiosks'')
      fresh_world)) =
     [BackendCall (strategy_call ''solar kiosks'' ''a growing market'' ''open ten kiosks'')] \<and>
   (\<exists>d. fst (analyze_strategy (scripted_env [Raises (Exn APIStatusError ''401'')])
      (Some ''solar kiosks'') (Some ''a growing market'') (Some ''open ten kiosks'')
      fresh_world) = Inr (PDict d) \<and> has_key d ''error'')"
proof -
  let ?e = "scripted_env [rate_limit_429, Raises (Exn APIStatusError ''401'')]"
  let ?f = "scripted_env [Raises (Exn APIStatusError ''401'')]"
  let ?req = "market_research_call ''solar kiosks''"
  let ?sreq = "strategy_call ''solar kiosks'' ''a growing market'' ''open ten kiosks''"
  have h1: "rate_limited_upto ?e ?req (calls_made fresh_world) 1"
    by (simp add: rate_limited_upto_def backend_scripted fresh_calls rate_limit_429_def
        is_rate_limit_def)
  have h2: "is_fatal (backend ?e (calls_made fresh_world + 1) ?req)"
    by (simp add: backend_scripted fresh_calls is_fatal_def)
  have s1: "rate_limited_upto ?f ?sreq (calls_made fresh_world) 0"
    by (rule rate_limited_upto_0)
  have s2: "is_fatal (backend ?f (calls_made fresh_world + 0) ?sreq)"
    by (simp add: backend_scripted fresh_calls is_fatal_def)
  from attempts_bounded_fatal_not_retried
    [of ?e "''solar kiosks''" fresh_world "''report''" None None None 1] h1 h2
  have market: "events (snd (analyze_market_opportunity ?e ''solar kiosks'' fresh_world)) =
          events fresh_world @ backoff_trace ?req 61 1 \<and>
        has_key (fst (analyze_market_opportunity ?e ''solar kiosks'' fresh_world)) ''error''"
    by simp
  from attempts_bounded_fatal_not_retried
    [of ?f "''solar kiosks''" fresh_world "''a growing market''" None None None 0
        "''open ten kiosks''"] s1 s2
  have strategy: "events (snd (analyze_strategy ?f (Some ''solar kiosks'')
          (Some ''a growing market'') (Some ''open ten kiosks'') fresh_world)) =
          events fresh_world @ backoff_trace ?sreq 61 0 \<and>
        (\<exists>d. fst (analyze_strategy ?f (Some ''solar kiosks'') (Some ''a growing market'')
          (Some ''open ten kiosks'') fresh_world) = Inr (PDict d) \<and> has_key d ''error'')"
    by simp
  from h1 h2 s1 s2 market strategy show ?thesis
    by (simp add: fresh_events backoff_trace_def)
qed

text \<open>
  Claim C2, as stated, fails: with the empty idea \<^verbatim>\<open>analyze_market_opportunity\<close> sends its
  call and returns a result, and an idea of 21 blanks, which \<^verbatim>\<open>strip\<close> empties, passes the
  dashboard's test and is sent as well.
\<close>

theorem blank_idea_reaches_backend:
  "events (snd (analyze_market_opportunity (scripted_env []) [] fresh_world)) =
     [BackendCall (market_research_call [])] \<and>
   has_key (fst (analyze_market_opportunity (scripted_env []) [] fresh_world))
     ''market_research_analysis'' \<and>
   strip (replicate 21 (CHR '' '')) = [] \<and>
   events (snd (generate_market_research_pressed (scripted_env []) (replicate 21 (CHR '' ''))
     fresh_world)) = [BackendCall (market_research_call (replicate 21 (CHR '' '')))]"
proof -
  let ?e = "scripted_env []"
  have k: "(0::nat) < 3" by simp
  have fin: "is_completion (backend ?e (calls_made fresh_world + 0) req)" for req
    by (simp add: backend_scripted is_completion_def)
  have ok: "completes_within_budget ?e req (calls_made fresh_world)" for req
    by (simp add: completes_within_budget_def ex_less3 upto_simps backend_scripted
        readable_def sample_completion_def)
  have blank: "strip (replicate 21 (CHR '' '')) = []"
    by (simp add: strip_def isspace_def)
  show ?thesis
    using market_research_trace_returns [OF k rate_limited_upto_0 fin, of "[]"]
      market_research_trace_returns [OF k rate_limited_upto_0 fin, of "replicate 21 (CHR '' '')"]
      market_research_outcome [of ?e "[]" fresh_world] ok [of "market_research_call []"]
      blank pressed_long [of "replicate 21 (CHR '' '')" ?e fresh_world]
    by (simp add: fresh_events backoff_trace_def)
qed

text \<open>
  Claim C2, amended. \<^verbatim>\<open>analyze_market_opportunity\<close> checks nothing: for every idea it
  sends at least one backend call. Only the dashboard holds the call back, when the idea
  has 20 characters or fewer; a longer idea is sent as it is, blank or not.
\<close>

theorem no_input_validation:
  "calls_made w < calls_made (snd (analyze_market_opportunity e idea w)) \<and>
   (length idea \<le> 20 \<longrightarrow> generate_market_research_pressed e idea w = (None, w)) \<and>
   (20 < length idea \<longrightarrow>
      snd (generate_market_research_pressed e idea w) =
      snd (analyze_market_opportunity e idea w))"
  using market_research_calls [of e idea w] pressed_short [of idea e w] pressed_long [of idea e w]
  by blast

theorem no_input_validation_witness:
  "calls_made fresh_world <
     calls_made (snd (analyze_market_opportunity (scripted_env []) [] fresh_world)) \<and>
   generate_market_research_pressed (scripted_env []) [] fresh_world = (None, fresh_world) \<and>
   snd (generate_market_research_pressed (scripted_env []) (replicate 21 (CHR '' ''))
     fresh_world) =
   snd (analyze_market_opportunity (scripted_env []) (replicate 21 (CHR '' '')) fresh_world)"
  using no_input_validation [of fresh_world "scripted_env []" "[]"]
    no_input_validation [of fresh_world "scripted_env []" "replicate 21 (CHR '' '')"]
  by simp



text \<open>
  Claim C4, as stated, fails: a timeout on the first attempt ends the market research
  call at once with a failure, although the next answer of the backend would have been a
  completion. One call is sent and no delay is waited.
\<close>

theorem transient_error_not_retried:
  "is_transient (backend (scripted_env [Raises (Exn APITimeoutError ''Request timed out.'')])
     (calls_made fresh_world) (market_research_call ''solar kiosks'')) \<and>
   is_completion (backend (scripted_env [Raises (Exn APITimeoutError ''Request timed out.'')])
     (calls_made fresh_world + 1) (market_research_call ''solar kiosks'')) \<and>
   analyze_market_opportunity (scripted_env [Raises (Exn APITimeoutError ''Request timed out.'')])
     ''solar kiosks'' fresh_world =
     ([(''error'', PStr ''An unexpected error occurred during analysis: Request timed out.'')],
      \<lparr>events = [BackendCall (market_research_call ''solar kiosks'')], stdin = []\<rparr>)"
  by (simp add: analyze_market_opportunity_def market_research_call_def range3 backend_scripted
      is_transient_def is_completion_def chat_completions_create_def calls_made_def
      fresh_world_def)

text \<open>
  Claim C4, amended. Only rate limits are retried. An error of any other class, a network
  or timeout error included, ends the stage call at its first occurrence: after \<open>k\<close> rate
  limits the trace is the \<open>k\<close> delayed attempts and the failing one, nothing follows it,
  and the result is a failure.
\<close>

theorem only_rate_limits_retried:
  "k < 3 \<Longrightarrow>
   (is_transient r \<longrightarrow> is_fatal r) \<and>
   (rate_limited_upto e (market_research_call idea) (calls_made w) k \<and>
    is_fatal (backend e (calls_made w + k) (market_research_call idea)) \<longrightarrow>
      events (snd (analyze_market_opportunity e idea w)) =
        events w @ backoff_trace (market_research_call idea) 61 k \<and>
      has_key (fst (analyze_market_opportunity e idea w)) ''error'') \<and>
   (rate_limited_upto e (web_research_call idea report) (calls_made w) k \<and>
    is_fatal (backend e (calls_made w + k) (web_research_call idea report)) \<longrightarrow>
      events (snd (research_execution_strategies e idea report w)) =
        events w @ backoff_trace (web_research_call idea report) 61 k \<and>
      has_key (fst (research_execution_strategies e idea report w)) ''error'') \<and>
   (idea \<noteq> [] \<and> report \<noteq> [] \<and> plan \<noteq> [] \<and>
    rate_limited_upto e (strategy_call idea report plan) (calls_made w) k \<and>
    is_fatal (backend e (calls_made w + k) (strategy_call idea report plan)) \<longrightarrow>
      events (snd (analyze_strategy e (Some idea) (Some report) (Some plan) w)) =
        events w @ backoff_trace (strategy_call idea report plan) 61 k \<and>
      (\<exists>d. fst (analyze_strategy e (Some idea) (Some report) (Some plan) w) = Inr (PDict d) \<and>
           has_key d ''error''))"
  using market_research_trace_fatal [of k e idea w]
    web_research_trace_fatal [of k e idea report w]
    strategy_trace_fatal [of k e idea report plan w]
    analyze_strategy_given [of idea report plan e w]
    transient_is_fatal [of r]
  by (simp del: strategy_attempts.simps)

theorem only_rate_limits_retried_witness:
  "is_transient (backend
     (scripted_env [rate_limit_429, Raises (Exn APIConnectionError ''Connection error.'')])
     (calls_made fresh_world + 1) (web_research_call ''solar kiosks'' ''a growing market'')) \<and>
   rate_limited_upto (scripted_env [rate_limit_429, Raises (Exn APIConnectionError ''Connection error.'')])
     (web_research_call ''solar kiosks'' ''a growing market'') (calls_made fresh_world) 1 \<and>
   is_fatal (backend (scripted_env [rate_limit_429, Raises (Exn APIConnectionError ''Connection error.'')])
     (calls_made fresh_world + 1) (web_research_call ''solar kiosks'' ''a growing market'')) \<and>
   events (snd (research_execution_strategies
      (scripted_env [rate_limit_429, Raises (Exn APIConnectionError ''Connection error.'')])
      ''solar kiosks'' ''a growing market'' fresh_world)) =
     [BackendCall (web_research_call ''solar kiosks'' ''a growing market''), Sleep 61,
      BackendCall (web_research_call ''solar kiosks'' ''a growing market'')] \<and>
   has_key (fst (research_execution_strategies
      (scripted_env [rate_limit_429, Raises (Exn APIConnectionError ''Connection error.'')])
      ''solar kiosks'' ''a growing market'' fresh_world)) ''error''"
proof -
  let ?e = "scripted_env [rate_limit_429, Raises (Exn APIConnectionError ''Connection error.'')]"
  let ?req = "web_research_call ''solar kiosks'' ''a growing market''"
  have k: "(1::nat) < 3" by simp
  note main = only_rate_limits_retried
    [OF k, of "backend ?e (calls_made fresh_world + 1) ?req" ?e "''solar kiosks''" fresh_world
       "''a growing market''" "''plan''"]
  have h0: "is_transient (backend ?e (calls_made fresh_world + 1) ?req)"
    by (simp add: backend_scripted fresh_calls is_transient_def)
  have h1: "rate_limited_upto ?e ?req (calls_made fresh_world) 1"
    by (simp add: rate_limited_upto_def backend_scripted fresh_calls rate_limit_429_def
        is_rate_limit_def)
  from main h0 have h2: "is_fatal (backend ?e (calls_made fresh_world + 1) ?req)"
    by blast
  from main h1 h2
  have "events (snd (research_execution_strategies ?e ''solar kiosks'' ''a growing market''
          fresh_world)) = events fresh_world @ backoff_trace ?req 61 1 \<and>
        has_key (fst (research_execution_strategies ?e ''solar kiosks'' ''a growing market''
          fresh_world)) ''error''"
    by blast
  with h0 h1 h2 show ?thesis
    by (simp add: fresh_events backoff_trace_def)
qed






text \<open>
  Claim C7 holds for the builders of \<^verbatim>\<open>ExecutionPlanGenerator.py\<close> and
  \<^verbatim>\<open>StrategicAnalyzer.py\<close> and fails for the chat context of the dashboard. The slice is
  the prefix of the first \<open>n\<close> characters, and each of the three builders is fixed text
  around the first 1500, 2000 or 2500 characters of the prior outputs it includes. The
  chat context is built with the slice written after the closing brace of the f-string
  field: a market research of 3001 characters, stored by the dashboard as
  \<^verbatim>\<open>analyze_market_opportunity\<close> returns it, is written whole, all 3001 characters and
  not the first 3000, and the characters \<^verbatim>\<open>[:3000]\<close> follow it.
\<close>

theorem chat_context_not_truncated:
  "(\<forall>n. \<forall>s :: string. slice_to n s = take n s) \<and>
   (\<forall>idea. \<exists>before after. \<forall>report.
      get_web_research_prompt idea report = before @ take 1500 report @ after) \<and>
   (\<forall>idea. \<exists>before between after. \<forall>report research.
      get_execution_planning_prompt idea report research =
        before @ take 1500 report @ between @ take 2000 research @ after) \<and>
   (\<forall>idea. \<exists>before between after. \<forall>report plan.
      get_strategic_analysis_prompt idea report plan =
        before @ take 2500 report @ between @ take 2500 plan @ after) \<and>
   length long_text = 3001 \<and>
   slice_to 3000 long_text = replicate 3000 (CHR ''x'') \<and>
   chatbot_available (fst (generate_market_research_pressed
      (scripted_env [Returns long_completion]) ''solar kiosks for night markets''
      fresh_world)) \<and>
   chatbot_interface_context ''solar kiosks for night markets''
     (fst (generate_market_research_pressed (scripted_env [Returns long_completion])
             ''solar kiosks for night markets'' fresh_world))
     None None =
     Some (''USER IDEA: solar kiosks for night markets\<newline>\<newline>MARKET RESEARCH:\<newline>'' @
           long_text @ ''[:3000]\<newline>\<newline>'')"
proof -
  let ?e = "scripted_env [Returns long_completion]"
  let ?idea = "''solar kiosks for night markets''"
  have k: "(0::nat) < 3" by simp
  have ret: "backend ?e (calls_made fresh_world + 0) (market_research_call ?idea) =
      Returns long_completion"
    by (simp add: backend_scripted fresh_calls)
  have ch: "choices long_completion =
      \<lparr>content = Some long_text, executed_tools = Absent, reasoning = Absent\<rparr> # []"
    and us: "usage long_completion \<noteq> IsNone"
    by (simp_all add: long_completion_def)
  note result = market_research_success [OF k rate_limited_upto_0 ret ch us]
  have succeeded: "\<not> has_key (fst (analyze_market_opportunity ?e ?idea fresh_world)) ''error''"
    by (simp add: result has_key_def)
  then have stored: "fst (generate_market_research_pressed ?e ?idea fresh_world) =
      Some (fst (analyze_market_opportunity ?e ?idea fresh_world))"
    by (cases "analyze_market_opportunity ?e ?idea fresh_world")
      (simp add: generate_market_research_pressed_def run_market_research_def)
  have entry: "dict_get (fst (analyze_market_opportunity ?e ?idea fresh_world))
     ''market_research_analysis'' (PStr []) = PStr long_text"
    by (simp add: result dict_get_def text_value_def)
  have nonempty: "fst (analyze_market_opportunity ?e ?idea fresh_world) \<noteq> []"
    by (simp add: result)
  have available: "chatbot_available (fst (generate_market_research_pressed ?e ?idea fresh_world))"
    by (simp add: stored chatbot_available_def nonempty)
  have written: "chatbot_interface_context ?idea
     (fst (generate_market_research_pressed ?e ?idea fresh_world)) None None =
     Some (''USER IDEA: solar kiosks for night markets\<newline>\<newline>MARKET RESEARCH:\<newline>'' @
           long_text @ ''[:3000]\<newline>\<newline>'')"
    by (simp add: stored chatbot_interface_context_def context_part_def entry nonempty)
  from slice_to_take web_research_prompt_prefix execution_planning_prompt_prefix
    strategic_analysis_prompt_prefix long_text_length long_text_slice available written
  show ?thesis by blast
qed

text \<open>
  Claim C8, as stated, fails: after two rate-limited attempts and a completion that
  reports 1234 tokens, the result of the market research holds a timestamp and the token
  count and nothing that counts the attempts; the result of the web research holds the
  text and a timestamp, no token count and no count of attempts; and a SWOT call that
  succeeds returns the text alone, with no timestamp.
\<close>

theorem attempts_not_recorded:
  "rate_limited_upto (scripted_env [rate_limit_429, rate_limit_429])
     (market_research_call ''solar kiosks'') (calls_made fresh_world) 2 \<and>
   fst (analyze_market_opportunity (scripted_env [rate_limit_429, rate_limit_429])
          ''solar kiosks'' fresh_world) =
     [(''user_idea'', PStr ''solar kiosks''),
      (''analysis_timestamp'', PStr ''2025-01-01T00:00:00''),
      (''model_used'', PStr ''groq/compound''),
      (''market_research_analysis'', PStr ''report''),
      (''web_search_data'', PList []),
      (''reasoning_process'', PStr []),
      (''analysis_metadata'',
       PDict
         [(''total_tokens'', PInt 1234),
          (''analysis_depth'', PStr ''comprehensive_with_real_web_search''),
          (''web_searches_performed'', PInt 0)])] \<and>
   fst (research_execution_strategies (scripted_env [rate_limit_429, rate_limit_429])
          ''solar kiosks'' ''a growing market'' fresh_world) =
     [(''research_data'', PStr ''report''), (''timestamp'', PStr ''2025-01-01T00:00:00'')] \<and>
   fst (quick_swot_analysis (scripted_env []) ''solar kiosks'' fresh_world) = PStr ''report''"
proof -
  let ?e = "scripted_env [rate_limit_429, rate_limit_429]"
  have k2: "(2::nat) < 3" by simp
  have rl: "rate_limited_upto ?e req (calls_made fresh_world) 2" for req
    by (simp add: rate_limited_upto_def backend_scripted fresh_calls rate_limit_429_def
        is_rate_limit_def less_Suc_eq numeral_2_eq_2)
  have ret: "backend ?e (calls_made fresh_world + 2) req = Returns sample_completion" for req
    by (simp add: backend_scripted fresh_calls)
  have ret0: "backend (scripted_env []) (calls_made fresh_world) req =
      Returns sample_completion" for req
    by (simp add: backend_scripted)
  have ch: "choices sample_completion =
      \<lparr>content = Some ''report'', executed_tools = Absent, reasoning = Absent\<rparr> # []"
    and us: "usage sample_completion \<noteq> IsNone"
    by (simp_all add: sample_completion_def)
  have ck: "clock ?e n = ''2025-01-01T00:00:00''" for n
    by (simp add: scripted_env_def fixed_clock_def)
  show ?thesis
    using rl [of "market_research_call ''solar kiosks''"]
      market_research_success [OF k2 rl ret ch us, of "''solar kiosks''"]
      web_research_success [OF k2 rl ret ch, of "''solar kiosks''" "''a growing market''"]
      swot_success [OF ret0 ch, of "''solar kiosks''"]
    by (simp add: ck sample_completion_def text_value_def)
qed

text \<open>
  Claim C8, amended. What a call that succeeds returns is written out for each of the
  five functions, and the number \<open>k\<close> of rate-limited attempts before the success stands
  nowhere in it but in the moment the clock is read, which is after the last attempt.
  The market research and the strategic analysis return a timestamp and the total token
  count the backend reports, \<^verbatim>\<open>None\<close> when the completion has no usage attribute; the web
  research and the execution plan return a timestamp and no token count; the SWOT call
  returns the text alone.
\<close>

theorem success_metadata:
  "k < 3 \<Longrightarrow> choices c = m # ms \<Longrightarrow>
   (rate_limited_upto e (market_research_call idea) (calls_made w) k \<and>
    backend e (calls_made w + k) (market_research_call idea) = Returns c \<and>
    usage c \<noteq> IsNone \<longrightarrow>
      fst (analyze_market_opportunity e idea w) =
        [(''user_idea'', PStr idea),
         (''analysis_timestamp'', PStr (clock e (length (events w) + 2 * k + 1))),
         (''model_used'', PStr ''groq/compound''),
         (''market_research_analysis'', text_value (content m)),
         (''web_search_data'',
          (case executed_tools m of Absent \<Rightarrow> PList [] | IsNone \<Rightarrow> PNone | Has ts \<Rightarrow> PList ts)),
         (''reasoning_process'',
          (case reasoning m of Absent \<Rightarrow> PStr [] | IsNone \<Rightarrow> PNone | Has r \<Rightarrow> PStr r)),
         (''analysis_metadata'',
          PDict
            [(''total_tokens'', (case usage c of Has n \<Rightarrow> PInt n | _ \<Rightarrow> PNone)),
             (''analysis_depth'', PStr ''comprehensive_with_real_web_search''),
             (''web_searches_performed'',
              PInt (case executed_tools m of Has ts \<Rightarrow> int (length ts) | _ \<Rightarrow> 0))])]) \<and>
   (rate_limited_upto e (web_research_call idea report) (calls_made w) k \<and>
    backend e (calls_made w + k) (web_research_call idea report) = Returns c \<longrightarrow>
      fst (research_execution_strategies e idea report w) =
        [(''research_data'', text_value (content m)),
         (''timestamp'', PStr (clock e (length (events w) + 2 * k + 1)))]) \<and>
   (idea \<noteq> [] \<and> report \<noteq> [] \<and> plan \<noteq> [] \<and>
    rate_limited_upto e (strategy_call idea report plan) (calls_made w) k \<and>
    backend e (calls_made w + k) (strategy_call idea report plan) = Returns c \<and>
    usage c \<noteq> IsNone \<longrightarrow>
      fst (analyze_strategy e (Some idea) (Some report) (Some plan) w) =
        Inr (PDict
          [(''user_idea'', PStr idea),
           (''market_report_summary'', PStr (summary_500 report)),
           (''execution_plan_summary'', PStr (summary_500 plan)),
           (''strategic_analysis'', text_value (content m)),
           (''analysis_timestamp'', PStr (clock e (length (events w) + 2 * k + 1))),
           (''model_used'', PStr ''openai/gpt-oss-120b''),
           (''analysis_type'', PStr ''comprehensive_strategic_analysis''),
           (''analysis_metadata'',
            PDict
              [(''total_tokens'', (case usage c of Has n \<Rightarrow> PInt n | _ \<Rightarrow> PNone)),
               (''analysis_depth'', PStr ''comprehensive_strategic_differentiation''),
               (''analysis_framework'', PStr ''positive_negative_differentiation_analysis'')])])) \<and>
   (idea \<noteq> [] \<and> report \<noteq> [] \<and>
    dict_get (fst (research_execution_strategies e idea report w)) ''research_data'' (PStr []) =
      PStr research \<and>
    backend e (calls_made (snd (research_execution_strategies e idea report w)))
      (planning_request (get_execution_planning_prompt idea report research)) = Returns c \<longrightarrow>
      fst (generate_execution_plan e (Some idea) (Some report) w) =
        Inr [(''user_idea'', PStr idea),
             (''market_report'', PStr report),
             (''web_research_summary'', PStr research),
             (''execution_plan'', text_value (content m)),
             (''generation_timestamp'',
              PStr (clock e
                (length (events (snd (research_execution_strategies e idea report w))) + 1)))]) \<and>
   (backend e (calls_made w) (swot_request (swot_prompt idea)) = Returns c \<longrightarrow>
      fst (quick_swot_analysis e idea w) = text_value (content m))"
proof -
  assume k: "k < 3" and ch: "choices c = m # ms"
  show ?thesis
  proof (intro conjI impI)
    assume "rate_limited_upto e (market_research_call idea) (calls_made w) k \<and>
      backend e (calls_made w + k) (market_research_call idea) = Returns c \<and>
      usage c \<noteq> IsNone"
    then show "fst (analyze_market_opportunity e idea w) =
        [(''user_idea'', PStr idea),
         (''analysis_timestamp'', PStr (clock e (length (events w) + 2 * k + 1))),
         (''model_used'', PStr ''groq/compound''),
         (''market_research_analysis'', text_value (content m)),
         (''web_search_data'',
          (case executed_tools m of Absent \<Rightarrow> PList [] | IsNone \<Rightarrow> PNone | Has ts \<Rightarrow> PList ts)),
         (''reasoning_process'',
          (case reasoning m of Absent \<Rightarrow> PStr [] | IsNone \<Rightarrow> PNone | Has r \<Rightarrow> PStr r)),
         (''analysis_metadata'',
          PDict
            [(''total_tokens'', (case usage c of Has n \<Rightarrow> PInt n | _ \<Rightarrow> PNone)),
             (''analysis_depth'', PStr ''comprehensive_with_real_web_search''),
             (''web_searches_performed'',
              PInt (case executed_tools m of Has ts \<Rightarrow> int (length ts) | _ \<Rightarrow> 0))])]"
      using market_research_success [OF k _ _ ch, of e idea w] by blast
  next
    assume "rate_limited_upto e (web_research_call idea report) (calls_made w) k \<and>
      backend e (calls_made w + k) (web_research_call idea report) = Returns c"
    then show "fst (research_execution_strategies e idea report w) =
        [(''research_data'', text_value (content m)),
         (''timestamp'', PStr (clock e (length (events w) + 2 * k + 1)))]"
      using web_research_success [OF k _ _ ch, of e idea report w] by blast
  next
    assume h: "idea \<noteq> [] \<and> report \<noteq> [] \<and> plan \<noteq> [] \<and>
      rate_limited_upto e (strategy_call idea report plan) (calls_made w) k \<and>
      backend e (calls_made w + k) (strategy_call idea report plan) = Returns c \<and>
      usage c \<noteq> IsNone"
    then have given: "analyze_strategy e (Some idea) (Some report) (Some plan) w =
       (Inr (fst (strategy_attempts e idea report plan
                    (get_strategic_analysis_prompt idea report plan) 3 61 [0..<3] w)),
        snd (strategy_attempts e idea report plan
               (get_strategic_analysis_prompt idea report plan) 3 61 [0..<3] w))"
      by (intro analyze_strategy_given) simp_all
    from h strategy_success [OF k _ _ ch, of e idea report plan w]
    show "fst (analyze_strategy e (Some idea) (Some report) (Some plan) w) =
        Inr (PDict
          [(''user_idea'', PStr idea),
           (''market_report_summary'', PStr (summary_500 report)),
           (''execution_plan_summary'', PStr (summary_500 plan)),
           (''strategic_analysis'', text_value (content m)),
           (''analysis_timestamp'', PStr (clock e (length (events w) + 2 * k + 1))),
           (''model_used'', PStr ''openai/gpt-oss-120b''),
           (''analysis_type'', PStr ''comprehensive_strategic_analysis''),
           (''analysis_metadata'',
            PDict
              [(''total_tokens'', (case usage c of Has n \<Rightarrow> PInt n | _ \<Rightarrow> PNone)),
               (''analysis_depth'', PStr ''comprehensive_strategic_differentiation''),
               (''analysis_framework'', PStr ''positive_negative_differentiation_analysis'')])])"
      unfolding given by simp
  next
    assume "idea \<noteq> [] \<and> report \<noteq> [] \<and>
      dict_get (fst (research_execution_strategies e idea report w)) ''research_data'' (PStr []) =
        PStr research \<and>
      backend e (calls_made (snd (research_execution_strategies e idea report w)))
        (planning_request (get_execution_planning_prompt idea report research)) = Returns c"
    then show "fst (generate_execution_plan e (Some idea) (Some report) w) =
        Inr [(''user_idea'', PStr idea),
             (''market_report'', PStr report),
             (''web_research_summary'', PStr research),
             (''execution_plan'', text_value (content m)),
             (''generation_timestamp'',
              PStr (clock e
                (length (events (snd (research_execution_strategies e idea report w))) + 1)))]"
      using generate_execution_plan_success [OF _ _ _ _ ch, of idea report e w research] by blast
  next
    assume "backend e (calls_made w) (swot_request (swot_prompt idea)) = Returns c"
    then show "fst (quick_swot_analysis e idea w) = text_value (content m)"
      using ch by (rule swot_success)
  qed
qed

theorem success_metadata_witness:
  "rate_limited_upto (scripted_env [rate_limit_429]) (market_research_call ''solar kiosks'')
     (calls_made fresh_world) 1 \<and>
   backend (scripted_env [rate_limit_429]) (calls_made fresh_world + 1)
     (market_research_call ''solar kiosks'') = Returns sample_completion \<and>
   usage sample_completion \<noteq> IsNone \<and>
   fst (analyze_market_opportunity (scripted_env [rate_limit_429]) ''solar kiosks''
     fresh_world) =
     [(''user_idea'', PStr ''solar kiosks''),
      (''analysis_timestamp'', PStr ''2025-01-01T00:00:00''),
      (''model_used'', PStr ''groq/compound''),
      (''market_research_analysis'', PStr ''report''),
      (''web_search_data'', PList []),
      (''reasoning_process'', PStr []),
      (''analysis_metadata'',
       PDict
         [(''total_tokens'', PInt 1234),
          (''analysis_depth'', PStr ''comprehensive_with_real_web_search''),
          (''web_searches_performed'', PInt 0)])] \<and>
   fst (research_execution_strategies (scripted_env [rate_limit_429]) ''solar kiosks''
     ''a growing market'' fresh_world) =
     [(''research_data'', PStr ''report''), (''timestamp'', PStr ''2025-01-01T00:00:00'')] \<and>
   fst (analyze_strategy (scripted_env [rate_limit_429]) (Some ''solar kiosks'')
     (Some ''a growing market'') (Some ''open ten kiosks'') fresh_world) =
     Inr (PDict
       [(''user_idea'', PStr ''solar kiosks''),
        (''market_report_summary'', PStr ''a growing market''),
        (''execution_plan_summary'', PStr ''open ten kiosks''),
        (''strategic_analysis'', PStr ''report''),
        (''analysis_timestamp'', PStr ''2025-01-01T00:00:00''),
        (''model_used'', PStr ''openai/gpt-oss-120b''),
        (''analysis_type'', PStr ''comprehensive_strategic_analysis''),
        (''analysis_metadata'',
         PDict
           [(''total_tokens'', PInt 1234),
            (''analysis_depth'', PStr ''comprehensive_strategic_differentiation''),
            (''analysis_framework'', PStr ''positive_negative_differentiation_analysis'')])]) \<and>
   fst (generate_execution_plan (scripted_env [rate_limit_429]) (Some ''solar kiosks'')
     (Some ''a growing market'') fresh_world) =
     Inr [(''user_idea'', PStr ''solar kiosks''),
          (''market_report'', PStr ''a growing market''),
          (''web_research_summary'', PStr ''report''),
          (''execution_plan'', PStr ''report''),
          (''generation_timestamp'', PStr ''2025-01-01T00:00:00'')] \<and>
   fst (quick_swot_analysis (scripted_env []) ''solar kiosks'' fresh_world) = PStr ''report''"
proof -
  let ?e = "scripted_env [rate_limit_429]"
  let ?web = "research_execution_strategies ?e ''solar kiosks'' ''a growing market'' fresh_world"
  have k: "(1::nat) < 3" by simp
  have rl: "rate_limited_upto ?e req (calls_made fresh_world) 1" for req
    by (simp add: rate_limited_upto_def backend_scripted fresh_calls rate_limit_429_def
        is_rate_limit_def)
  have ret: "backend ?e (calls_made fresh_world + 1) req = Returns sample_completion" for req
    by (simp add: backend_scripted fresh_calls)
  have ret0: "backend (scripted_env []) (calls_made fresh_world) req =
      Returns sample_completion" for req
    by (simp add: backend_scripted)
  have ch: "choices sample_completion =
      \<lparr>content = Some ''report'', executed_tools = Absent, reasoning = Absent\<rparr> # []"
    and us: "usage sample_completion \<noteq> IsNone" "usage sample_completion = Has 1234"
    by (simp_all add: sample_completion_def)
  have ck: "clock ?e n = ''2025-01-01T00:00:00''" "clock (scripted_env []) n = ''2025-01-01T00:00:00''"
    for n by (simp_all add: scripted_env_def fixed_clock_def)
  have short: "summary_500 ''a growing market'' = ''a growing market''"
    "summary_500 ''open ten kiosks'' = ''open ten kiosks''"
    by (simp_all add: summary_500_def)
  note main = success_metadata [OF k ch, of ?e "''solar kiosks''" fresh_world
    "''a growing market''" "''open ten kiosks''" "''report''"]
  from main rl ret us
  have market: "fst (analyze_market_opportunity ?e ''solar kiosks'' fresh_world) =
     [(''user_idea'', PStr ''solar kiosks''),
      (''analysis_timestamp'', PStr ''2025-01-01T00:00:00''),
      (''model_used'', PStr ''groq/compound''),
      (''market_research_analysis'', PStr ''report''),
      (''web_search_data'', PList []),
      (''reasoning_process'', PStr []),
      (''analysis_metadata'',
       PDict
         [(''total_tokens'', PInt 1234),
          (''analysis_depth'', PStr ''comprehensive_with_real_web_search''),
          (''web_searches_performed'', PInt 0)])]"
    by (simp add: ck text_value_def)
  from main rl ret
  have web: "fst ?web =
     [(''research_data'', PStr ''report''), (''timestamp'', PStr ''2025-01-01T00:00:00'')]"
    by (simp add: ck text_value_def)
  from main rl ret us
  have strategy: "fst (analyze_strategy ?e (Some ''solar kiosks'') (Some ''a growing market'')
      (Some ''open ten kiosks'') fresh_world) =
     Inr (PDict
       [(''user_idea'', PStr ''solar kiosks''),
        (''market_report_summary'', PStr ''a growing market''),
        (''execution_plan_summary'', PStr ''open ten kiosks''),
        (''strategic_analysis'', PStr ''report''),
        (''analysis_timestamp'', PStr ''2025-01-01T00:00:00''),
        (''model_used'', PStr ''openai/gpt-oss-120b''),
        (''analysis_type'', PStr ''comprehensive_strategic_analysis''),
        (''analysis_metadata'',
         PDict
           [(''total_tokens'', PInt 1234),
            (''analysis_depth'', PStr ''comprehensive_strategic_differentiation''),
            (''analysis_framework'', PStr ''positive_negative_differentiation_analysis'')])])"
    by (simp add: ck short text_value_def)
  have data: "dict_get (fst ?web) ''research_data'' (PStr []) = PStr ''report''"
    by (simp add: web dict_get_def)
  have "0 < calls_made (snd ?web)"
    using web_research_calls [of ?e "''solar kiosks''" "''a growing market''" fresh_world]
    by (simp add: fresh_calls)
  then have planned: "backend ?e (calls_made (snd ?web)) req = Returns sample_completion" for req
    by (simp add: backend_scripted)
  from main data planned
  have plan: "fst (generate_execution_plan ?e (Some ''solar kiosks'') (Some ''a growing market'')
      fresh_world) =
     Inr [(''user_idea'', PStr ''solar kiosks''),
          (''market_report'', PStr ''a growing market''),
          (''web_research_summary'', PStr ''report''),
          (''execution_plan'', PStr ''report''),
          (''generation_timestamp'', PStr ''2025-01-01T00:00:00'')]"
    by (simp add: ck text_value_def)
  from success_metadata [OF k ch, of "scripted_env []" "''solar kiosks''" fresh_world
    "''a growing market''" "''open ten kiosks''" "''report''"] ret0
  have swot: "fst (quick_swot_analysis (scripted_env []) ''solar kiosks'' fresh_world) =
      PStr ''report''"
    by (simp add: text_value_def)
  from rl [of "market_research_call ''solar kiosks''"]
    ret [of "market_research_call ''solar kiosks''"] us(1) market web strategy plan swot
  show ?thesis by blast
qed

text \<open>
  Claim C9, as stated, fails: a rate limit on the SWOT call is not retried. One call is
  sent and the failure text is returned, although the next answer of the backend would
  have been a completion.
\<close>

theorem swot_rate_limit_not_retried:
  "is_rate_limit (backend (scripted_env [rate_limit_429]) (calls_made fresh_world)
     (swot_request (swot_prompt ''solar kiosks''))) \<and>
   is_completion (backend (scripted_env [rate_limit_429]) (calls_made fresh_world + 1)
     (swot_request (swot_prompt ''solar kiosks''))) \<and>
   quick_swot_analysis (scripted_env [rate_limit_429]) ''solar kiosks'' fresh_world =
     (PStr ''SWOT analysis failed: 429'',
      \<lparr>events = [BackendCall (swot_request (swot_prompt ''solar kiosks''))], stdin = []\<rparr>)"
  by (simp add: quick_swot_analysis_def backend_scripted rate_limit_429_def is_rate_limit_def
      is_completion_def chat_completions_create_def calls_made_def fresh_world_def)

text \<open>
  Claim C9, amended. Market research, web research and strategic analysis share one
  policy: under lasting rate limits each sends three attempts with a delay of 61 seconds
  after the first and after the second. The planning call, the SWOT call and each chat
  question are never repeated, whatever the backend answers. The SWOT call and each chat
  question are sent exactly once. The planning call is sent once when the web research
  has left a text, its own or the placeholder; when the web research has returned a
  completion without text, \<^verbatim>\<open>generate_execution_plan\<close> raises a \<^verbatim>\<open>TypeError\<close> while it
  builds the prompt and sends no planning call at all.
\<close>

theorem retry_policy_by_call:
  "(rate_limited_upto e (market_research_call idea) (calls_made w) 3 \<longrightarrow>
      events (snd (analyze_market_opportunity e idea w)) =
        events w @ [BackendCall (market_research_call idea), Sleep 61,
                    BackendCall (market_research_call idea), Sleep 61,
                    BackendCall (market_research_call idea)]) \<and>
   (rate_limited_upto e (web_research_call idea report) (calls_made w) 3 \<longrightarrow>
      events (snd (research_execution_strategies e idea report w)) =
        events w @ [BackendCall (web_research_call idea report), Sleep 61,
                    BackendCall (web_research_call idea report), Sleep 61,
                    BackendCall (web_research_call idea report)]) \<and>
   (idea \<noteq> [] \<and> report \<noteq> [] \<and> plan \<noteq> [] \<and>
    rate_limited_upto e (strategy_call idea report plan) (calls_made w) 3 \<longrightarrow>
      events (snd (analyze_strategy e (Some idea) (Some report) (Some plan) w)) =
        events w @ [BackendCall (strategy_call idea report plan), Sleep 61,
                    BackendCall (strategy_call idea report plan), Sleep 61,
                    BackendCall (strategy_call idea report plan)]) \<and>
   (idea \<noteq> [] \<and> report \<noteq> [] \<longrightarrow>
      (dict_get (fst (research_execution_strategies e idea report w)) ''research_data''
         (PStr []) = PNone \<or>
       (\<exists>research. dict_get (fst (research_execution_strategies e idea report w))
          ''research_data'' (PStr []) = PStr research)) \<and>
      (\<forall>research.
         dict_get (fst (research_execution_strategies e idea report w)) ''research_data''
           (PStr []) = PStr research \<longrightarrow>
         events (snd (generate_execution_plan e (Some idea) (Some report) w)) =
           events (snd (research_execution_strategies e idea report w)) @
           [BackendCall (planning_request
              (get_execution_planning_prompt idea report research))]) \<and>
      (dict_get (fst (research_execution_strategies e idea report w)) ''research_data''
         (PStr []) = PNone \<longrightarrow>
         generate_execution_plan e (Some idea) (Some report) w =
           (Inl (Exn TypeError none_not_subscriptable),
            snd (research_execution_strategies e idea report w)))) \<and>
   events (snd (quick_swot_analysis e idea w)) =
     events w @ [BackendCall (swot_request (swot_prompt idea))] \<and>
   (fst (chatbot_main e w) = Inr () \<longrightarrow>
      (\<exists>mr ep sa. events (snd (chatbot_main e w)) =
         events w @ map (\<lambda>line. BackendCall (chat_request (build_prompt mr ep sa (strip line))))
                      (takeWhile (\<lambda>line. \<not> leaves_chat line) (stdin w))))"
proof (intro conjI impI)
  assume "rate_limited_upto e (market_research_call idea) (calls_made w) 3"
  then show "events (snd (analyze_market_opportunity e idea w)) =
        events w @ [BackendCall (market_research_call idea), Sleep 61,
                    BackendCall (market_research_call idea), Sleep 61,
                    BackendCall (market_research_call idea)]"
    by (rule market_research_trace_exhausted)
next
  assume "rate_limited_upto e (web_research_call idea report) (calls_made w) 3"
  then show "events (snd (research_execution_strategies e idea report w)) =
        events w @ [BackendCall (web_research_call idea report), Sleep 61,
                    BackendCall (web_research_call idea report), Sleep 61,
                    BackendCall (web_research_call idea report)]"
    by (rule web_research_trace_exhausted)
next
  assume h: "idea \<noteq> [] \<and> report \<noteq> [] \<and> plan \<noteq> [] \<and>
    rate_limited_upto e (strategy_call idea report plan) (calls_made w) 3"
  then show "events (snd (analyze_strategy e (Some idea) (Some report) (Some plan) w)) =
        events w @ [BackendCall (strategy_call idea report plan), Sleep 61,
                    BackendCall (strategy_call idea report plan), Sleep 61,
                    BackendCall (strategy_call idea report plan)]"
    using analyze_strategy_given [of idea report plan e w]
      strategy_trace_exhausted [of e idea report plan w]
    by (simp del: strategy_attempts.simps)
next
  assume h: "idea \<noteq> [] \<and> report \<noteq> []"
  from web_research_data [of e idea report w]
  show "dict_get (fst (research_execution_strategies e idea report w)) ''research_data''
         (PStr []) = PNone \<or>
       (\<exists>research. dict_get (fst (research_execution_strategies e idea report w))
          ''research_data'' (PStr []) = PStr research)"
    by blast
next
  assume h: "idea \<noteq> [] \<and> report \<noteq> []"
  from h generate_execution_plan_given [of idea report e w]
  show "\<forall>research.
         dict_get (fst (research_execution_strategies e idea report w)) ''research_data''
           (PStr []) = PStr research \<longrightarrow>
         events (snd (generate_execution_plan e (Some idea) (Some report) w)) =
           events (snd (research_execution_strategies e idea report w)) @
           [BackendCall (planning_request
              (get_execution_planning_prompt idea report research))]"
    by blast
next
  assume h: "idea \<noteq> [] \<and> report \<noteq> []"
    and "dict_get (fst (research_execution_strategies e idea report w)) ''research_data''
         (PStr []) = PNone"
  with generate_execution_plan_none [of idea report e w]
  show "generate_execution_plan e (Some idea) (Some report) w =
           (Inl (Exn TypeError none_not_subscriptable),
            snd (research_execution_strategies e idea report w))"
    by blast
next
  show "events (snd (quick_swot_analysis e idea w)) =
     events w @ [BackendCall (swot_request (swot_prompt idea))]"
    by (rule swot_events)
next
  assume "fst (chatbot_main e w) = Inr ()"
  from chatbot_main_events [OF this]
  show "\<exists>mr ep sa. events (snd (chatbot_main e w)) =
         events w @ map (\<lambda>line. BackendCall (chat_request (build_prompt mr ep sa (strip line))))
                      (takeWhile (\<lambda>line. \<not> leaves_chat line) (stdin w))"
    by blast
qed

theorem retry_policy_by_call_witness:
  "rate_limited_upto (scripted_env [rate_limit_429, rate_limit_429, rate_limit_429])
     (market_research_call ''solar kiosks'') (calls_made fresh_world) 3 \<and>
   events (snd (analyze_market_opportunity
      (scripted_env [rate_limit_429, rate_limit_429, rate_limit_429])
      ''solar kiosks'' fresh_world)) =
     [BackendCall (market_research_call ''solar kiosks''), Sleep 61,
      BackendCall (market_research_call ''solar kiosks''), Sleep 61,
      BackendCall (market_research_call ''solar kiosks'')] \<and>
   events (snd (analyze_strategy
      (scripted_env [rate_limit_429, rate_limit_429, rate_limit_429])
      (Some ''solar kiosks'') (Some ''a growing market'') (Some ''open ten kiosks'')
      fresh_world)) =
     [BackendCall (strategy_call ''solar kiosks'' ''a growing market'' ''open ten kiosks''),
      Sleep 61,
      BackendCall (strategy_call ''solar kiosks'' ''a growing market'' ''open ten kiosks''),
      Sleep 61,
      BackendCall (strategy_call ''solar kiosks'' ''a growing market'' ''open ten kiosks'')] \<and>
   events (snd (generate_execution_plan
      (scripted_env [rate_limit_429, rate_limit_429, rate_limit_429])
      (Some ''solar kiosks'') (Some ''a growing market'') fresh_world)) =
     [BackendCall (web_research_call ''solar kiosks'' ''a growing market''), Sleep 61,
      BackendCall (web_research_call ''solar kiosks'' ''a growing market''), Sleep 61,
      BackendCall (web_research_call ''solar kiosks'' ''a growing market''),
      BackendCall (planning_request
        (get_execution_planning_prompt ''solar kiosks'' ''a growing market'' ''Not available.''))] \<and>
   dict_get (fst (research_execution_strategies (scripted_env [Returns textless_completion])
      ''solar kiosks'' ''a growing market'' fresh_world)) ''research_data'' (PStr []) = PNone \<and>
   generate_execution_plan (scripted_env [Returns textless_completion])
      (Some ''solar kiosks'') (Some ''a growing market'') fresh_world =
     (Inl (Exn TypeError none_not_subscriptable),
      \<lparr>events = [BackendCall (web_research_call ''solar kiosks'' ''a growing market'')],
         stdin = []\<rparr>) \<and>
   events (snd (quick_swot_analysis
      (scripted_env [rate_limit_429, rate_limit_429, rate_limit_429])
      ''solar kiosks'' fresh_world)) =
     [BackendCall (swot_request (swot_prompt ''solar kiosks''))] \<and>
   fst (chatbot_main (scripted_env [rate_limit_429, rate_limit_429, rate_limit_429])
      \<lparr>events = [], stdin = ['' Who buys it? '', ''QUIT'', ''never asked'']\<rparr>) = Inr () \<and>
   (\<exists>mr ep sa. events (snd (chatbot_main
        (scripted_env [rate_limit_429, rate_limit_429, rate_limit_429])
        \<lparr>events = [], stdin = ['' Who buys it? '', ''QUIT'', ''never asked'']\<rparr>)) =
      [BackendCall (chat_request (build_prompt mr ep sa ''Who buys it?''))])"
proof -
  let ?e = "scripted_env [rate_limit_429, rate_limit_429, rate_limit_429]"
  let ?w = "\<lparr>events = [], stdin = ['' Who buys it? '', ''QUIT'', ''never asked'']\<rparr>"
  have rl: "rate_limited_upto ?e req (calls_made fresh_world) 3" for req
    by (simp add: rate_limited_upto_def backend_scripted fresh_calls rate_limit_429_def
        is_rate_limit_def less_Suc_eq numeral_3_eq_3)
  have loaded: "fst (chatbot_main ?e ?w) = Inr ()"
    by (simp add: chatbot_main_def load_report_def scripted_env_def no_files_def)
  note main = retry_policy_by_call [of ?e "''solar kiosks''" _ "''a growing market''" "''open ten kiosks''"]
  from main [of fresh_world] rl
  have amo: "events (snd (analyze_market_opportunity ?e ''solar kiosks'' fresh_world)) =
        events fresh_world @
        [BackendCall (market_research_call ''solar kiosks''), Sleep 61,
         BackendCall (market_research_call ''solar kiosks''), Sleep 61,
         BackendCall (market_research_call ''solar kiosks'')]"
    and web: "events (snd (research_execution_strategies ?e ''solar kiosks'' ''a growing market''
          fresh_world)) =
        events fresh_world @
        [BackendCall (web_research_call ''solar kiosks'' ''a growing market''), Sleep 61,
         BackendCall (web_research_call ''solar kiosks'' ''a growing market''), Sleep 61,
         BackendCall (web_research_call ''solar kiosks'' ''a growing market'')]"
    and strat: "events (snd (analyze_strategy ?e (Some ''solar kiosks'')
          (Some ''a growing market'') (Some ''open ten kiosks'') fresh_world)) =
        events fresh_world @
        [BackendCall (strategy_call ''solar kiosks'' ''a growing market'' ''open ten kiosks''),
         Sleep 61,
         BackendCall (strategy_call ''solar kiosks'' ''a growing market'' ''open ten kiosks''),
         Sleep 61,
         BackendCall (strategy_call ''solar kiosks'' ''a growing market'' ''open ten kiosks'')]"
    and swot: "events (snd (quick_swot_analysis ?e ''solar kiosks'' fresh_world)) =
        events fresh_world @ [BackendCall (swot_request (swot_prompt ''solar kiosks''))]"
    by simp_all
  have failed: "fst (research_execution_strategies ?e ''solar kiosks'' ''a growing market''
      fresh_world) =
     [(''error'', PStr ''Web research failed after 3 attempts due to persistent rate limiting.''),
      (''details'', PStr ''429''),
      (''research_data'', PStr ''Not available.'')]"
    by (simp add: research_execution_strategies_def range3 backend_scripted
        rate_limit_429_def run_defs fresh_world_def char_of_51)
  have data: "dict_get (fst (research_execution_strategies ?e ''solar kiosks''
      ''a growing market'' fresh_world)) ''research_data'' (PStr []) = PStr ''Not available.''"
    by (simp add: failed dict_get_def)
  from main [of fresh_world] data
  have plan: "events (snd (generate_execution_plan ?e (Some ''solar kiosks'')
          (Some ''a growing market'') fresh_world)) =
        events (snd (research_execution_strategies ?e ''solar kiosks'' ''a growing market''
          fresh_world)) @
        [BackendCall (planning_request
           (get_execution_planning_prompt ''solar kiosks'' ''a growing market''
              ''Not available.''))]"
    by simp
  let ?n = "scripted_env [Returns textless_completion]"
  have textless: "research_execution_strategies ?n ''solar kiosks'' ''a growing market''
      fresh_world =
     ([(''research_data'', PNone), (''timestamp'', PStr ''2025-01-01T00:00:00'')],
      \<lparr>events = [BackendCall (web_research_call ''solar kiosks'' ''a growing market'')],
         stdin = []\<rparr>)"
    by (simp add: research_execution_strategies_def web_research_call_def range3
        backend_scripted textless_completion_def web_research_result_def text_value_def
        datetime_now_isoformat_def scripted_env_def fixed_clock_def run_defs fresh_world_def)
  have nodata: "dict_get (fst (research_execution_strategies ?n ''solar kiosks''
      ''a growing market'' fresh_world)) ''research_data'' (PStr []) = PNone"
    by (simp add: textless dict_get_def)
  from retry_policy_by_call
    [of ?n "''solar kiosks''" fresh_world "''a growing market''" "''open ten kiosks''"] nodata
  have raised: "generate_execution_plan ?n (Some ''solar kiosks'') (Some ''a growing market'')
      fresh_world =
     (Inl (Exn TypeError none_not_subscriptable),
      snd (research_execution_strategies ?n ''solar kiosks'' ''a growing market'' fresh_world))"
    by simp
  from main [of ?w] loaded
  have chat: "\<exists>mr ep sa. events (snd (chatbot_main ?e ?w)) =
         events ?w @ map (\<lambda>line. BackendCall (chat_request (build_prompt mr ep sa (strip line))))
                      (takeWhile (\<lambda>line. \<not> leaves_chat line) (stdin ?w))"
    by simp
  then have chat': "\<exists>mr ep sa. events (snd (chatbot_main ?e ?w)) =
      [BackendCall (chat_request (build_prompt mr ep sa ''Who buys it?''))]"
    by (simp add: sample_question)
  from rl amo strat plan swot loaded chat' nodata raised show ?thesis
    by (simp add: web fresh_events textless)
qed

text \<open>
  Claim C10 fails where the code reads the token count. A completion that comes at the
  first attempt, with a text and with \<^verbatim>\<open>usage\<close> set to \<^verbatim>\<open>None\<close>, is a completion within
  the budget, yet the result has the key \<^verbatim>\<open>error\<close> and not the key
  \<^verbatim>\<open>market_research_analysis\<close>: \<^verbatim>\<open>hasattr(completion, 'usage')\<close> holds of an attribute
  that is \<^verbatim>\<open>None\<close>, and reading \<^verbatim>\<open>total_tokens\<close> of \<^verbatim>\<open>None\<close> raises inside the \<^verbatim>\<open>try\<close>.
  The same completion without the attribute gives the analysis, with \<^verbatim>\<open>None\<close> for the
  token count.
\<close>

theorem completion_without_usage_gives_error:
  "returns_within_budget (scripted_env [Returns (sample_completion\<lparr>usage := IsNone\<rparr>)])
     (market_research_call ''solar kiosks'') (calls_made fresh_world) \<and>
   analyze_market_opportunity (scripted_env [Returns (sample_completion\<lparr>usage := IsNone\<rparr>)])
     ''solar kiosks'' fresh_world =
     ([(''error'', PStr (''An unexpected error occurred during analysis: '' @
                         none_has_no_total_tokens))],
      \<lparr>events = [BackendCall (market_research_call ''solar kiosks'')], stdin = []\<rparr>) \<and>
   has_key (fst (analyze_market_opportunity
      (scripted_env [Returns (sample_completion\<lparr>usage := IsNone\<rparr>)])
      ''solar kiosks'' fresh_world)) ''error'' \<and>
   \<not> has_key (fst (analyze_market_opportunity
      (scripted_env [Returns (sample_completion\<lparr>usage := IsNone\<rparr>)])
      ''solar kiosks'' fresh_world)) ''market_research_analysis'' \<and>
   returns_within_budget (scripted_env [Returns (sample_completion\<lparr>usage := Absent\<rparr>)])
     (market_research_call ''solar kiosks'') (calls_made fresh_world) \<and>
   fst (analyze_market_opportunity (scripted_env [Returns (sample_completion\<lparr>usage := Absent\<rparr>)])
     ''solar kiosks'' fresh_world) =
     [(''user_idea'', PStr ''solar kiosks''),
      (''analysis_timestamp'', PStr ''2025-01-01T00:00:00''),
      (''model_used'', PStr ''groq/compound''),
      (''market_research_analysis'', PStr ''report''),
      (''web_search_data'', PList []),
      (''reasoning_process'', PStr []),
      (''analysis_metadata'',
       PDict
         [(''total_tokens'', PNone),
          (''analysis_depth'', PStr ''comprehensive_with_real_web_search''),
          (''web_searches_performed'', PInt 0)])]"
proof -
  let ?none = "scripted_env [Returns (sample_completion\<lparr>usage := IsNone\<rparr>)]"
  let ?absent = "scripted_env [Returns (sample_completion\<lparr>usage := Absent\<rparr>)]"
  let ?req = "market_research_call ''solar kiosks''"
  have returned: "returns_within_budget (scripted_env [Returns c]) ?req (calls_made fresh_world)"
    for c
    by (simp add: returns_within_budget_def ex_less3 upto_simps backend_scripted fresh_calls
        is_completion_def)
  have failed: "analyze_market_opportunity ?none ''solar kiosks'' fresh_world =
     ([(''error'', PStr (''An unexpected error occurred during analysis: '' @
                         none_has_no_total_tokens))],
      \<lparr>events = [BackendCall ?req], stdin = []\<rparr>)"
    by (simp add: analyze_market_opportunity_def market_research_call_def range3
        backend_scripted sample_completion_def market_research_result_def run_defs
        fresh_world_def)
  have analysed: "fst (analyze_market_opportunity ?absent ''solar kiosks'' fresh_world) =
     [(''user_idea'', PStr ''solar kiosks''),
      (''analysis_timestamp'', PStr ''2025-01-01T00:00:00''),
      (''model_used'', PStr ''groq/compound''),
      (''market_research_analysis'', PStr ''report''),
      (''web_search_data'', PList []),
      (''reasoning_process'', PStr []),
      (''analysis_metadata'',
       PDict
         [(''total_tokens'', PNone),
          (''analysis_depth'', PStr ''comprehensive_with_real_web_search''),
          (''web_searches_performed'', PInt 0)])]"
    by (simp add: analyze_market_opportunity_def market_research_call_def range3
        backend_scripted sample_completion_def market_research_result_def run_defs
        text_value_def datetime_now_isoformat_def scripted_env_def fixed_clock_def
        fresh_world_def)
  have keys: "has_key (fst (analyze_market_opportunity ?none ''solar kiosks'' fresh_world))
      ''error''"
    "\<not> has_key (fst (analyze_market_opportunity ?none ''solar kiosks'' fresh_world))
      ''market_research_analysis''"
    by (simp_all add: failed has_key_def)
  from returned [of "sample_completion\<lparr>usage := IsNone\<rparr>"]
    returned [of "sample_completion\<lparr>usage := Absent\<rparr>"] failed keys analysed
  show ?thesis by blast
qed

end
